theory Spec2Isabelle
  imports Complex_Main
begin

section \<open>Strings\<close>

text \<open>
  Strings are character lists, a character being a code unit below 256. The helpers
  below are the JavaScript string and array primitives that \<^verbatim>\<open>Turso.execute\<close> calls:
  \<^verbatim>\<open>trim\<close>, \<^verbatim>\<open>join\<close>, \<^verbatim>\<open>split\<close>, \<^verbatim>\<open>includes\<close>, \<^verbatim>\<open>slice\<close> and the decimal
  digits of a natural number. The white space that \<^verbatim>\<open>trim\<close> removes is, in this range,
  tab, line feed, vertical tab, form feed, carriage return, space and no-break space.
\<close>

definition isWhiteSpace :: "char \<Rightarrow> bool" where
  "isWhiteSpace c = (c \<in> set [CHR 0x09, CHR 0x0A, CHR 0x0B, CHR 0x0C, CHR 0x0D, CHR 0x20, CHR 0xA0])"

definition trim :: "string \<Rightarrow> string" where
  "trim s = rev (dropWhile isWhiteSpace (rev (dropWhile isWhiteSpace s)))"

text \<open>The recurring guard \<^verbatim>\<open>!s || s.trim() === ''\<close>.\<close>

definition blank :: "string \<Rightarrow> bool" where
  "blank s = (s = [] \<or> trim s = [])"

fun join :: "string \<Rightarrow> string list \<Rightarrow> string" where
  "join sep [] = []"
| "join sep [x] = x"
| "join sep (x # y # ys) = x @ sep @ join sep (y # ys)"

fun split :: "char \<Rightarrow> string \<Rightarrow> string list" where
  "split sep [] = [[]]"
| "split sep (c # cs) =
     (if c = sep then [] # split sep cs
      else (case split sep cs of [] \<Rightarrow> [[c]] | x # xs \<Rightarrow> (c # x) # xs))"

definition includes_str :: "string \<Rightarrow> string \<Rightarrow> bool" where
  "includes_str s sub = list_ex (\<lambda>i. take (length sub) (drop i s) = sub) [0..<Suc (length s)]"

definition slice :: "'a list \<Rightarrow> nat \<Rightarrow> nat \<Rightarrow> 'a list" where
  "slice xs start stop = take (stop - start) (drop start xs)"

fun string_of_nat :: "nat \<Rightarrow> string" where
  "string_of_nat n =
     (if n < 10 then [''0123456789'' ! n]
      else string_of_nat (n div 10) @ [''0123456789'' ! (n mod 10)])"

declare string_of_nat.simps [simp del]

section \<open>Values\<close>

text \<open>
  The values that flow through the node: statement arguments, the JSON of the input
  items, and the response objects. An object is its list of own properties, in order.
  A built-in function is kept by its name.
\<close>

datatype jsval =
    JUndefined
  | JNull
  | JBool bool
  | JNum int
  | JStr string
  | JArr "jsval list"
  | JObj "(string \<times> jsval) list"
  | JFunction string

type_synonym jsobject = "(string \<times> jsval) list"

datatype error =
    ValidationError string
  | DatabaseError string "string option"
  | TypeError string

text \<open>
  Every failure raised by \<^verbatim>\<open>execute\<close> itself is a \<^verbatim>\<open>NodeOperationError\<close>. The model
  tells them apart by where they are thrown: \<^const>\<open>ValidationError\<close> is one thrown by a
  parameter check of \<^verbatim>\<open>execute\<close> (with its message), \<^const>\<open>DatabaseError\<close> is one thrown by
  \<^verbatim>\<open>handleDatabaseError\<close> (message and description). \<^const>\<open>TypeError\<close> is the runtime's
  own error for a property read on \<^verbatim>\<open>null\<close> or \<^verbatim>\<open>undefined\<close>.
\<close>

definition index_prop :: "'a list \<Rightarrow> string \<Rightarrow> 'a option" where
  "index_prop xs name = map_option (\<lambda>i. xs ! i) (find (\<lambda>i. string_of_nat i = name) [0..<length xs])"

section \<open>The runtime\<close>

text \<open>
  Two things the JavaScript runtime decides are parameters of the model: what the
  prototype chain of an array, a string, a number, a boolean or a function gives for a
  name that is not one of the value's own properties (undefined when the chain has no
  such member), and the text of a finite number that is not a safe integer.
\<close>

record runtime =
  rt_inherited :: "jsval \<Rightarrow> string \<Rightarrow> jsval"
  rt_number_text :: "rat \<Rightarrow> string"

text \<open>
  The members a plain object inherits from \<^verbatim>\<open>Object.prototype\<close>: eleven built-in
  functions, and \<^verbatim>\<open>__proto__\<close>, which reads as the prototype object itself.
\<close>

definition object_prototype_functions :: "(string \<times> jsval) list" where
  "object_prototype_functions =
     [(''constructor'', JFunction ''Object''),
      (''__defineGetter__'', JFunction ''__defineGetter__''),
      (''__defineSetter__'', JFunction ''__defineSetter__''),
      (''hasOwnProperty'', JFunction ''hasOwnProperty''),
      (''__lookupGetter__'', JFunction ''__lookupGetter__''),
      (''__lookupSetter__'', JFunction ''__lookupSetter__''),
      (''isPrototypeOf'', JFunction ''isPrototypeOf''),
      (''propertyIsEnumerable'', JFunction ''propertyIsEnumerable''),
      (''toString'', JFunction ''toString''),
      (''valueOf'', JFunction ''valueOf''),
      (''toLocaleString'', JFunction ''toLocaleString'')]"

definition object_prototype :: "(string \<times> jsval) list" where
  "object_prototype =
     object_prototype_functions
       @ [(''__proto__'', JObj (object_prototype_functions @ [(''__proto__'', JNull)]))]"

text \<open>
  The property read on a plain object: an own property, else the inherited member, else
  undefined.
\<close>

definition record_value :: "jsobject \<Rightarrow> string \<Rightarrow> jsval" where
  "record_value kvs name =
     (case map_of kvs name of
        Some v \<Rightarrow> v
      | None \<Rightarrow> (case map_of object_prototype name of Some m \<Rightarrow> m | None \<Rightarrow> JUndefined))"

text \<open>
  The property read \<^verbatim>\<open>entry[name]\<close> on any value. It throws on \<^verbatim>\<open>null\<close> and
  \<^verbatim>\<open>undefined\<close>; an array and a string have their length and their elements as own
  properties.
\<close>

fun get_prop :: "runtime \<Rightarrow> jsval \<Rightarrow> string \<Rightarrow> error + jsval" where
  "get_prop rt JUndefined name =
     Inl (TypeError (''Cannot read properties of undefined (reading '' @ [CHR 0x27] @ name @ [CHR 0x27] @ '')''))"
| "get_prop rt JNull name =
     Inl (TypeError (''Cannot read properties of null (reading '' @ [CHR 0x27] @ name @ [CHR 0x27] @ '')''))"
| "get_prop rt (JObj kvs) name = Inr (record_value kvs name)"
| "get_prop rt (JArr xs) name =
     Inr (if name = ''length'' then JNum (int (length xs))
          else (case index_prop xs name of Some v \<Rightarrow> v | None \<Rightarrow> rt_inherited rt (JArr xs) name))"
| "get_prop rt (JStr s) name =
     Inr (if name = ''length'' then JNum (int (length s))
          else (case index_prop s name of Some c \<Rightarrow> JStr [c] | None \<Rightarrow> rt_inherited rt (JStr s) name))"
| "get_prop rt (JBool b) name = Inr (rt_inherited rt (JBool b) name)"
| "get_prop rt (JNum n) name = Inr (rt_inherited rt (JNum n) name)"
| "get_prop rt (JFunction f) name = Inr (rt_inherited rt (JFunction f) name)"

section \<open>Numbers\<close>

text \<open>
  The \<^verbatim>\<open>limit\<close> and \<^verbatim>\<open>offset\<close> parameters are JavaScript numbers: a finite number is
  the rational it denotes. The two comparisons are \<^verbatim>\<open>limit <= 0\<close> and
  \<^verbatim>\<open>offset > 0\<close>, both false of \<^verbatim>\<open>NaN\<close>. A template literal prints a safe integer (at
  most 9007199254740991 in absolute value) in plain decimal; the text of any other finite
  number is the runtime's.
\<close>

datatype jsnumber = Finite rat | PosInfinity | NegInfinity | NaN

definition le_zero :: "jsnumber \<Rightarrow> bool" where
  "le_zero x = (case x of Finite q \<Rightarrow> q \<le> 0 | PosInfinity \<Rightarrow> False | NegInfinity \<Rightarrow> True | NaN \<Rightarrow> False)"

definition gt_zero :: "jsnumber \<Rightarrow> bool" where
  "gt_zero x = (case x of Finite q \<Rightarrow> 0 < q | PosInfinity \<Rightarrow> True | NegInfinity \<Rightarrow> False | NaN \<Rightarrow> False)"

definition number_to_string :: "runtime \<Rightarrow> jsnumber \<Rightarrow> string" where
  "number_to_string rt x =
     (case x of
        Finite q \<Rightarrow>
          if q = of_int \<lfloor>q\<rfloor> \<and> \<bar>q\<bar> \<le> 9007199254740991
          then (if q < 0 then ''-'' @ string_of_nat (nat (- \<lfloor>q\<rfloor>)) else string_of_nat (nat \<lfloor>q\<rfloor>))
          else rt_number_text rt q
      | PosInfinity \<Rightarrow> ''Infinity''
      | NegInfinity \<Rightarrow> ''-Infinity''
      | NaN \<Rightarrow> ''NaN'')"

section \<open>The execution capability\<close>

text \<open>
  A statement is the pair \<^verbatim>\<open>{ sql, args }\<close> handed to \<^verbatim>\<open>client.execute\<close>. The client is
  a parameter of the model: a function of the statement and the database state that
  either throws or returns a result set, together with the next database state. The
  world also records every statement submitted so far, in order.
\<close>

type_synonym stmt = "string \<times> jsval list"

datatype column = ColumnString string | ColumnObject string

record ResultSet =
  rs_columns :: "column list option"
  rs_rows :: "jsval list option"
  rs_rowsAffected :: "int option"
  rs_lastInsertRowid :: "jsval option"

datatype thrown =
    LibsqlError string "string option"
  | JsError string
  | NonError

type_synonym 'db capability = "stmt \<Rightarrow> 'db \<Rightarrow> (thrown + ResultSet) \<times> 'db"

type_synonym 'db world = "'db \<times> stmt list"

definition client_execute :: "'db capability \<Rightarrow> stmt \<Rightarrow> 'db world \<Rightarrow> (thrown + ResultSet) \<times> 'db world" where
  "client_execute exec s w = (case exec s (fst w) of (r, db') \<Rightarrow> (r, (db', snd w @ [s])))"

definition handleDatabaseError :: "thrown \<Rightarrow> string \<Rightarrow> error" where
  "handleDatabaseError err operation =
     (case err of
        LibsqlError message code \<Rightarrow>
          DatabaseError (''Database error in \"'' @ operation @ ''\": '' @ message)
            (Some (''Error code: '' @ (case code of None \<Rightarrow> ''unknown'' | Some c \<Rightarrow> if c = [] then ''unknown'' else c)))
      | JsError message \<Rightarrow>
          if includes_str message ''connection''
          then DatabaseError (''Connection error: '' @ message @ ''. Please check your credentials and database URL.'') None
          else DatabaseError (''Error in \"'' @ operation @ ''\": '' @ message) None
      | NonError \<Rightarrow> DatabaseError (''Unknown error in \"'' @ operation @ ''\"'') None)"

section \<open>Result normalisation\<close>

text \<open>
  The block that follows a successful \<^verbatim>\<open>client.execute\<close> in the query operations:
  \<^verbatim>\<open>result.columns?.map(...) || []\<close>, \<^verbatim>\<open>result.rows || []\<close>, and the two optional
  fields copied as they are.
\<close>

definition columnName :: "column \<Rightarrow> string" where
  "columnName column = (case column of ColumnString s \<Rightarrow> s | ColumnObject name \<Rightarrow> name)"

definition columnNames_of :: "ResultSet \<Rightarrow> string list" where
  "columnNames_of result = (case rs_columns result of None \<Rightarrow> [] | Some cs \<Rightarrow> map columnName cs)"

definition rows_of :: "ResultSet \<Rightarrow> jsval list" where
  "rows_of result = (case rs_rows result of None \<Rightarrow> [] | Some rs \<Rightarrow> rs)"

definition rowsAffected_of :: "ResultSet \<Rightarrow> jsval" where
  "rowsAffected_of result = (case rs_rowsAffected result of None \<Rightarrow> JUndefined | Some n \<Rightarrow> JNum n)"

definition lastInsertRowid_of :: "ResultSet \<Rightarrow> jsval" where
  "lastInsertRowid_of result = (case rs_lastInsertRowid result of None \<Rightarrow> JUndefined | Some v \<Rightarrow> v)"

definition processResult :: "ResultSet \<Rightarrow> jsval" where
  "processResult result =
     JObj [(''columns'', JArr (map JStr (columnNames_of result))),
           (''rows'', JArr (rows_of result)),
           (''rowsAffected'', rowsAffected_of result),
           (''lastInsertRowid'', lastInsertRowid_of result)]"

section \<open>Node parameters\<close>

text \<open>
  The values \<^verbatim>\<open>this.getNodeParameter(name, i)\<close> returns for one item. A fixed
  collection of \<^verbatim>\<open>{ value }\<close> entries is the list of its values.
\<close>

record parameters =
  p_operation :: string
  p_query :: string
  p_queryParams :: "string list"
  p_queries :: "(string \<times> string) list"
  p_table :: string
  p_columns :: "string list"
  p_dataSource :: string
  p_valueItems :: "string list"
  p_itemsPath :: string
  p_whereClause :: string
  p_whereParams :: "string list"
  p_selectAllColumns :: bool
  p_useWhere :: bool
  p_whereClauseSelect :: string
  p_whereParamsSelect :: "string list"
  p_useOrderBy :: bool
  p_orderBy :: string
  p_orderDirection :: string
  p_useLimit :: bool
  p_limit :: jsnumber
  p_offset :: jsnumber

text \<open>The defaults declared in the node description.\<close>

definition default_parameters :: parameters where
  "default_parameters =
     \<lparr> p_operation = ''executeQuery'', p_query = '''', p_queryParams = [], p_queries = [],
       p_table = '''', p_columns = [], p_dataSource = ''inputItems'', p_valueItems = [],
       p_itemsPath = ''data'', p_whereClause = '''', p_whereParams = [],
       p_selectAllColumns = False, p_useWhere = False, p_whereClauseSelect = '''',
       p_whereParamsSelect = [], p_useOrderBy = False, p_orderBy = '''',
       p_orderDirection = ''ASC'', p_useLimit = False, p_limit = Finite 100, p_offset = Finite 0 \<rparr>"

section \<open>Row sourcing for insert and update\<close>

text \<open>
  Manual input: \<^verbatim>\<open>for (let j = 0; j < values.length; j += valuesPerRow)\<close>, pushing
  \<^verbatim>\<open>values.slice(j, j + valuesPerRow)\<close> followed by \<open>suffix\<close> (the where arguments of
  an update; the insert loop pushes the bare slice, the empty suffix). The loop does not
  end for a step of zero, so it is a partial function.
\<close>

partial_function (option) group_loop ::
  "nat \<Rightarrow> jsval list \<Rightarrow> jsval list \<Rightarrow> nat \<Rightarrow> jsval list list \<Rightarrow> jsval list list option" where
  "group_loop valuesPerRow vals suffix j rows =
     (if j < length vals
      then group_loop valuesPerRow vals suffix (j + valuesPerRow)
             (rows @ [slice vals j (j + valuesPerRow) @ suffix])
      else Some rows)"

text \<open>
  Input items: \<^verbatim>\<open>columnNames.map(name => entry[name])\<close> for one entry; the value
  \<^verbatim>\<open>rowData\<close> of one item (\<^verbatim>\<open>item.json[itemsPath]\<close>, or \<^verbatim>\<open>item.json\<close> for an empty
  path); the rows one \<^verbatim>\<open>rowData\<close> contributes (an array gives one row per entry, an
  object gives one row, anything else gives none); and the loop over all incoming items.
\<close>

fun read_columns :: "runtime \<Rightarrow> jsval \<Rightarrow> string list \<Rightarrow> error + jsval list" where
  "read_columns rt entry [] = Inr []"
| "read_columns rt entry (name # names) =
     (case get_prop rt entry name of
        Inl e \<Rightarrow> Inl e
      | Inr v \<Rightarrow> (case read_columns rt entry names of Inl e \<Rightarrow> Inl e | Inr vs \<Rightarrow> Inr (v # vs)))"

fun entries_loop :: "runtime \<Rightarrow> string list \<Rightarrow> jsval list \<Rightarrow> jsval list \<Rightarrow> jsval list list \<Rightarrow> error + jsval list list" where
  "entries_loop rt columnNames suffix [] rows = Inr rows"
| "entries_loop rt columnNames suffix (entry # entries) rows =
     (case read_columns rt entry columnNames of
        Inl e \<Rightarrow> Inl e
      | Inr row \<Rightarrow> entries_loop rt columnNames suffix entries (rows @ [row @ suffix]))"

definition item_rowData :: "string \<Rightarrow> jsobject \<Rightarrow> error + jsval" where
  "item_rowData itemsPath json =
     (if itemsPath \<noteq> []
      then (let rowData = record_value json itemsPath in
            if rowData = JUndefined
            then Inl (ValidationError
                   (''Item path '' @ [CHR 0x27] @ itemsPath @ [CHR 0x27] @ '' not found in input data''))
            else Inr rowData)
      else Inr (JObj json))"

fun push_rowData :: "runtime \<Rightarrow> string list \<Rightarrow> jsval list \<Rightarrow> jsval \<Rightarrow> jsval list list \<Rightarrow> error + jsval list list" where
  "push_rowData rt columnNames suffix (JArr entries) rows = entries_loop rt columnNames suffix entries rows"
| "push_rowData rt columnNames suffix (JObj kvs) rows =
     (case read_columns rt (JObj kvs) columnNames of
        Inl e \<Rightarrow> Inl e
      | Inr row \<Rightarrow> Inr (rows @ [row @ suffix]))"
| "push_rowData rt columnNames suffix rowData rows = Inr rows"

fun items_loop ::
  "runtime \<Rightarrow> string \<Rightarrow> string list \<Rightarrow> jsval list \<Rightarrow> jsobject list \<Rightarrow> jsval list list \<Rightarrow> error + jsval list list" where
  "items_loop rt itemsPath columnNames suffix [] rows = Inr rows"
| "items_loop rt itemsPath columnNames suffix (json # items) rows =
     (case item_rowData itemsPath json of
        Inl e \<Rightarrow> Inl e
      | Inr rowData \<Rightarrow>
          (case push_rowData rt columnNames suffix rowData rows of
             Inl e \<Rightarrow> Inl e
           | Inr rows' \<Rightarrow> items_loop rt itemsPath columnNames suffix items rows'))"

definition source_rows ::
  "runtime \<Rightarrow> string \<Rightarrow> parameters \<Rightarrow> jsval list \<Rightarrow> jsobject list \<Rightarrow> (error + jsval list list) option" where
  "source_rows rt verb p suffix items =
     (let columnNames = p_columns p in
      if p_dataSource p = ''manualInput''
      then (let valueItems = p_valueItems p in
            if length valueItems = 0
            then Some (Inl (ValidationError (''No values provided for '' @ verb @ '' operation'')))
            else (let valuesPerRow = length columnNames; vals = map JStr valueItems in
                  if length vals mod valuesPerRow \<noteq> 0
                  then Some (Inl (ValidationError
                         (''Values count ('' @ string_of_nat (length vals)
                            @ '') is not a multiple of columns count ('' @ string_of_nat valuesPerRow @ '')'')))
                  else map_option Inr (group_loop valuesPerRow vals suffix 0 [])))
      else (case items_loop rt (p_itemsPath p) columnNames suffix items [] of
              Inl e \<Rightarrow> Some (Inl e)
            | Inr rows \<Rightarrow>
                if length rows = 0
                then Some (Inl (ValidationError (''No data found to '' @ verb)))
                else Some (Inr rows)))"

text \<open>
  The loop that submits the built statements one at a time, awaiting each, and stops at
  the first failure. \<open>shape\<close> builds the entry pushed onto \<^verbatim>\<open>results\<close>.
\<close>

fun submit_loop ::
  "'db capability \<Rightarrow> (ResultSet \<Rightarrow> jsval) \<Rightarrow> string \<Rightarrow> stmt list \<Rightarrow> jsval list \<Rightarrow> 'db world
     \<Rightarrow> (error + jsval list) \<times> 'db world" where
  "submit_loop exec shape operation [] results w = (Inr results, w)"
| "submit_loop exec shape operation (s # rest) results w =
     (case client_execute exec s w of
        (Inl err, w') \<Rightarrow> (Inl (handleDatabaseError err operation), w')
      | (Inr result, w') \<Rightarrow> submit_loop exec shape operation rest (results @ [shape result]) w')"

section \<open>Insert rows\<close>

definition insert_query :: "string \<Rightarrow> string list \<Rightarrow> string" where
  "insert_query table columnNames =
     ''INSERT INTO '' @ table @ '' ('' @ join '', '' columnNames @ '') VALUES (''
       @ join '', '' (map (\<lambda>_. ''?'') columnNames) @ '')''"

definition insertRows_build :: "runtime \<Rightarrow> parameters \<Rightarrow> jsobject list \<Rightarrow> (error + stmt list) option" where
  "insertRows_build rt p items =
     (let table = p_table p in
      if blank table then Some (Inl (ValidationError ''Table name cannot be empty''))
      else (let selectedColumns = p_columns p in
            if length selectedColumns = 0
            then Some (Inl (ValidationError ''At least one column must be selected''))
            else (case source_rows rt ''insert'' p [] items of
                    None \<Rightarrow> None
                  | Some (Inl e) \<Rightarrow> Some (Inl e)
                  | Some (Inr rows) \<Rightarrow>
                      Some (Inr (map (\<lambda>row. (insert_query table selectedColumns, row)) rows)))))"

definition insert_result :: "ResultSet \<Rightarrow> jsval" where
  "insert_result result =
     JObj [(''rowsAffected'', rowsAffected_of result), (''lastInsertRowid'', lastInsertRowid_of result)]"

definition insertRows ::
  "runtime \<Rightarrow> 'db capability \<Rightarrow> parameters \<Rightarrow> jsobject list \<Rightarrow> 'db world \<Rightarrow> ((error + jsval) \<times> 'db world) option" where
  "insertRows rt exec p items w =
     (case insertRows_build rt p items of
        None \<Rightarrow> None
      | Some (Inl e) \<Rightarrow> Some (Inl e, w)
      | Some (Inr stmts) \<Rightarrow>
          Some (case submit_loop exec insert_result ''Insert Rows'' stmts [] w of
                  (Inl e, w') \<Rightarrow> (Inl e, w')
                | (Inr results, w') \<Rightarrow> (Inr (JArr results), w')))"

section \<open>Update rows\<close>

definition update_query :: "string \<Rightarrow> string list \<Rightarrow> string \<Rightarrow> string" where
  "update_query table columnNames whereClause =
     ''UPDATE '' @ table @ '' SET '' @ join '', '' (map (\<lambda>col. col @ '' = ?'') columnNames)
       @ '' WHERE '' @ whereClause"

definition updateRows_build :: "runtime \<Rightarrow> parameters \<Rightarrow> jsobject list \<Rightarrow> (error + stmt list) option" where
  "updateRows_build rt p items =
     (let table = p_table p in
      if blank table then Some (Inl (ValidationError ''Table name cannot be empty''))
      else (let selectedColumns = p_columns p in
            if length selectedColumns = 0
            then Some (Inl (ValidationError ''At least one column must be selected''))
            else (let whereClause = p_whereClause p in
                  if blank whereClause
                  then Some (Inl (ValidationError ''WHERE clause is required for update operations for safety''))
                  else (let whereArgs = map JStr (p_whereParams p) in
                        case source_rows rt ''update'' p whereArgs items of
                          None \<Rightarrow> None
                        | Some (Inl e) \<Rightarrow> Some (Inl e)
                        | Some (Inr rows) \<Rightarrow>
                            Some (Inr (map (\<lambda>row. (update_query table selectedColumns whereClause, row)) rows))))))"

definition update_result :: "ResultSet \<Rightarrow> jsval" where
  "update_result result = JObj [(''rowsAffected'', rowsAffected_of result)]"

definition updateRows ::
  "runtime \<Rightarrow> 'db capability \<Rightarrow> parameters \<Rightarrow> jsobject list \<Rightarrow> 'db world \<Rightarrow> ((error + jsval) \<times> 'db world) option" where
  "updateRows rt exec p items w =
     (case updateRows_build rt p items of
        None \<Rightarrow> None
      | Some (Inl e) \<Rightarrow> Some (Inl e, w)
      | Some (Inr stmts) \<Rightarrow>
          Some (case submit_loop exec update_result ''Update Rows'' stmts [] w of
                  (Inl e, w') \<Rightarrow> (Inl e, w')
                | (Inr results, w') \<Rightarrow> (Inr (JArr results), w')))"

section \<open>Delete rows\<close>

definition deleteRows_build :: "parameters \<Rightarrow> error + stmt" where
  "deleteRows_build p =
     (let table = p_table p in
      if blank table then Inl (ValidationError ''Table name cannot be empty'')
      else (let whereClause = p_whereClause p in
            if blank whereClause
            then Inl (ValidationError ''WHERE clause is required for delete operations for safety'')
            else (let whereArgs = map JStr (p_whereParams p) in
                  Inr (''DELETE FROM '' @ table @ '' WHERE '' @ whereClause, whereArgs))))"

definition deleteRows :: "'db capability \<Rightarrow> parameters \<Rightarrow> 'db world \<Rightarrow> (error + jsval) \<times> 'db world" where
  "deleteRows exec p w =
     (case deleteRows_build p of
        Inl e \<Rightarrow> (Inl e, w)
      | Inr s \<Rightarrow>
          (case client_execute exec s w of
             (Inl err, w') \<Rightarrow> (Inl (handleDatabaseError err ''Delete Rows''), w')
           | (Inr result, w') \<Rightarrow> (Inr (JObj [(''rowsAffected'', rowsAffected_of result)]), w')))"

section \<open>Select rows\<close>

definition select_columnsList :: "parameters \<Rightarrow> error + string" where
  "select_columnsList p =
     (if p_selectAllColumns p then Inr ''*''
      else (let selectedColumns = p_columns p in
            if length selectedColumns = 0
            then Inl (ValidationError ''At least one column must be selected'')
            else Inr (join '', '' selectedColumns)))"

definition select_where :: "parameters \<Rightarrow> error + string \<times> jsval list" where
  "select_where p =
     (if p_useWhere p
      then (let whereClause = p_whereClauseSelect p in
            if blank whereClause
            then Inl (ValidationError ''WHERE clause cannot be empty when \"Use Where Clause\" is enabled'')
            else Inr (whereClause, map JStr (p_whereParamsSelect p)))
      else Inr ([], []))"

definition select_orderByClause :: "parameters \<Rightarrow> error + string" where
  "select_orderByClause p =
     (if p_useOrderBy p
      then (let orderBy = p_orderBy p in
            if blank orderBy
            then Inl (ValidationError ''Order by column must be selected when \"Use Order By\" is enabled'')
            else Inr ('' ORDER BY '' @ orderBy @ '' '' @ p_orderDirection p))
      else Inr [])"

definition select_limitOffsetClause :: "runtime \<Rightarrow> parameters \<Rightarrow> error + string" where
  "select_limitOffsetClause rt p =
     (if p_useLimit p
      then (let limit = p_limit p in
            if le_zero limit then Inl (ValidationError ''Limit must be greater than 0'')
            else (let offset = p_offset p in
                  Inr ('' LIMIT '' @ number_to_string rt limit
                        @ (if gt_zero offset then '' OFFSET '' @ number_to_string rt offset else []))))
      else Inr [])"

definition selectRows_build :: "runtime \<Rightarrow> parameters \<Rightarrow> error + stmt" where
  "selectRows_build rt p =
     (let table = p_table p in
      if blank table then Inl (ValidationError ''Table name cannot be empty'')
      else (case select_columnsList p of
              Inl e \<Rightarrow> Inl e
            | Inr columnsList \<Rightarrow>
               (case select_where p of
                  Inl e \<Rightarrow> Inl e
                | Inr (whereClause, whereArgs) \<Rightarrow>
                   (case select_orderByClause p of
                      Inl e \<Rightarrow> Inl e
                    | Inr orderByClause \<Rightarrow>
                       (case select_limitOffsetClause rt p of
                          Inl e \<Rightarrow> Inl e
                        | Inr limitOffsetClause \<Rightarrow>
                            Inr ((''SELECT '' @ columnsList @ '' FROM '' @ table)
                                   @ (if p_useWhere p then '' WHERE '' @ whereClause else [])
                                   @ orderByClause @ limitOffsetClause,
                                 whereArgs))))))"

definition selectRows :: "runtime \<Rightarrow> 'db capability \<Rightarrow> parameters \<Rightarrow> 'db world \<Rightarrow> (error + jsval) \<times> 'db world" where
  "selectRows rt exec p w =
     (case selectRows_build rt p of
        Inl e \<Rightarrow> (Inl e, w)
      | Inr s \<Rightarrow>
          (case client_execute exec s w of
             (Inl err, w') \<Rightarrow> (Inl (handleDatabaseError err ''Select Rows''), w')
           | (Inr result, w') \<Rightarrow>
               (Inr (JObj [(''columns'', JArr (map JStr (columnNames_of result))),
                           (''rows'', JArr (rows_of result))]), w')))"

section \<open>List tables and describe table\<close>

fun row_names :: "runtime \<Rightarrow> jsval list \<Rightarrow> error + jsval list" where
  "row_names rt [] = Inr []"
| "row_names rt (row # rows) =
     (case get_prop rt row ''name'' of
        Inl e \<Rightarrow> Inl e
      | Inr v \<Rightarrow> (case row_names rt rows of Inl e \<Rightarrow> Inl e | Inr vs \<Rightarrow> Inr (v # vs)))"

definition listTables :: "runtime \<Rightarrow> 'db capability \<Rightarrow> 'db world \<Rightarrow> (error + jsval) \<times> 'db world" where
  "listTables rt exec w =
     (case client_execute exec
             (''SELECT name FROM sqlite_master WHERE type='' @ [CHR 0x27] @ ''table'' @ [CHR 0x27]
                @ '' AND name NOT LIKE '' @ [CHR 0x27] @ ''sqlite_%'' @ [CHR 0x27], []) w of
        (Inl err, w') \<Rightarrow> (Inl (handleDatabaseError err ''List Tables''), w')
      | (Inr result, w') \<Rightarrow>
          (case (case rs_rows result of None \<Rightarrow> Inr [] | Some rows \<Rightarrow> row_names rt rows) of
             Inl (TypeError message) \<Rightarrow> (Inl (handleDatabaseError (JsError message) ''List Tables''), w')
           | Inl e \<Rightarrow> (Inl e, w')
           | Inr tables \<Rightarrow> (Inr (JObj [(''tables'', JArr tables)]), w')))"

definition describeTable_build :: "parameters \<Rightarrow> error + stmt" where
  "describeTable_build p =
     (let table = p_table p in
      if blank table then Inl (ValidationError ''Table name cannot be empty'')
      else Inr (''PRAGMA table_info('' @ table @ '')'', []))"

definition describeTable :: "'db capability \<Rightarrow> parameters \<Rightarrow> 'db world \<Rightarrow> (error + jsval) \<times> 'db world" where
  "describeTable exec p w =
     (case describeTable_build p of
        Inl e \<Rightarrow> (Inl e, w)
      | Inr s \<Rightarrow>
          (case client_execute exec s w of
             (Inl err, w') \<Rightarrow> (Inl (handleDatabaseError err ''Describe Table''), w')
           | (Inr result, w') \<Rightarrow> (Inr (JObj [(''columns'', JArr (rows_of result))]), w')))"

section \<open>Execute query and execute batch\<close>

definition executeQuery :: "'db capability \<Rightarrow> parameters \<Rightarrow> 'db world \<Rightarrow> (error + jsval) \<times> 'db world" where
  "executeQuery exec p w =
     (let query = p_query p in
      if blank query then (Inl (ValidationError ''SQL query cannot be empty''), w)
      else (let args = map JStr (p_queryParams p) in
            case client_execute exec (query, args) w of
              (Inl err, w') \<Rightarrow> (Inl (handleDatabaseError err ''Execute Query''), w')
            | (Inr result, w') \<Rightarrow> (Inr (processResult result), w')))"

definition batch_args :: "string \<Rightarrow> jsval list" where
  "batch_args parameters =
     (if parameters \<noteq> [] then map (\<lambda>p. JStr (trim p)) (split CHR '','' parameters) else [])"

fun batch_loop ::
  "'db capability \<Rightarrow> (string \<times> string) list \<Rightarrow> jsval list \<Rightarrow> 'db world \<Rightarrow> (error + jsval list) \<times> 'db world" where
  "batch_loop exec [] results w = (Inr results, w)"
| "batch_loop exec ((query, parameters) # rest) results w =
     (if blank query then (Inl (ValidationError ''SQL query cannot be empty''), w)
      else (let args = batch_args parameters in
            case client_execute exec (query, args) w of
              (Inl err, w') \<Rightarrow> (Inl (handleDatabaseError err (''Execute Batch - Query: '' @ query)), w')
            | (Inr result, w') \<Rightarrow> batch_loop exec rest (results @ [processResult result]) w'))"

definition executeBatch :: "'db capability \<Rightarrow> parameters \<Rightarrow> 'db world \<Rightarrow> (error + jsval) \<times> 'db world" where
  "executeBatch exec p w =
     (let queries = p_queries p in
      if length queries = 0
      then (Inl (ValidationError ''At least one query is required for batch execution''), w)
      else (case batch_loop exec queries [] w of
              (Inl e, w') \<Rightarrow> (Inl e, w')
            | (Inr results, w') \<Rightarrow> (Inr (JArr results), w')))"

section \<open>One iteration of the item loop\<close>

text \<open>
  The body of \<^verbatim>\<open>for (let i = 0; i < items.length; i++)\<close> up to the value of
  \<^verbatim>\<open>responseData\<close>: the dispatch on the operation name. \<open>None\<close> is a run that does
  not return.
\<close>

definition execute_item ::
  "runtime \<Rightarrow> 'db capability \<Rightarrow> parameters \<Rightarrow> jsobject list \<Rightarrow> 'db world \<Rightarrow> ((error + jsval) \<times> 'db world) option" where
  "execute_item rt exec p items w =
     (let operation = p_operation p in
      if operation = ''executeQuery'' then Some (executeQuery exec p w)
      else if operation = ''executeBatch'' then Some (executeBatch exec p w)
      else if operation = ''insertRows'' then insertRows rt exec p items w
      else if operation = ''updateRows'' then updateRows rt exec p items w
      else if operation = ''deleteRows'' then Some (deleteRows exec p w)
      else if operation = ''selectRows'' then Some (selectRows rt exec p w)
      else if operation = ''listTables'' then Some (listTables rt exec w)
      else if operation = ''describeTable'' then Some (describeTable exec p w)
      else Some (Inr JUndefined, w))"

section \<open>Identifier syntax\<close>

text \<open>
  The rule the specification words for a name that is interpolated into statement text:
  letters, digits and underscore only. \<^verbatim>\<open>execute\<close> has no such check; the predicate is
  here to state which names reach the statement text.
\<close>

definition identifier_char :: "char \<Rightarrow> bool" where
  "identifier_char c = (c \<in> set ''abcdefghijklmnopqrstuvwxyzABCDEFGHIJKLMNOPQRSTUVWXYZ0123456789_'')"

definition identifier_syntax :: "string \<Rightarrow> bool" where
  "identifier_syntax s = (s \<noteq> [] \<and> list_all identifier_char s)"

section \<open>Input items that hold records\<close>

text \<open>
  An item holds the records \<open>recs\<close> when its \<^verbatim>\<open>rowData\<close> is the array of those records,
  or is the one record itself.
\<close>

definition item_holds_records :: "string \<Rightarrow> jsobject \<Rightarrow> jsobject list \<Rightarrow> bool" where
  "item_holds_records itemsPath json recs =
     (item_rowData itemsPath json = Inr (JArr (map JObj recs))
      \<or> (length recs = 1 \<and> item_rowData itemsPath json = Inr (JObj (hd recs))))"

section \<open>The fields of a response\<close>

text \<open>
  The field names of a response object, and the per-statement results of a response: the
  elements of an array, or the response itself.
\<close>

fun keys :: "jsval \<Rightarrow> string list" where
  "keys (JObj kvs) = map fst kvs"
| "keys v = []"

fun elements :: "jsval \<Rightarrow> jsval list" where
  "elements (JArr xs) = xs"
| "elements v = [v]"

section \<open>The two-operation revision\<close>

text \<open>
  \<^verbatim>\<open>nodes/Turso/Turso.node.ts\<close> holds an earlier revision of \<^verbatim>\<open>execute\<close> with the query and
  batch operations only. It makes no parameter check and has no \<^verbatim>\<open>handleDatabaseError\<close>:
  what the capability throws leaves the operation as it is. The results below are about
  the full revision above; the earlier one is recorded to show where the two differ.
\<close>

definition early_executeQuery :: "'db capability \<Rightarrow> parameters \<Rightarrow> 'db world \<Rightarrow> (thrown + jsval) \<times> 'db world" where
  "early_executeQuery exec p w =
     (let query = p_query p; args = map JStr (p_queryParams p) in
      case client_execute exec (query, args) w of
        (Inl err, w') \<Rightarrow> (Inl err, w')
      | (Inr result, w') \<Rightarrow> (Inr (processResult result), w'))"

fun early_batch_loop ::
  "'db capability \<Rightarrow> (string \<times> string) list \<Rightarrow> jsval list \<Rightarrow> 'db world \<Rightarrow> (thrown + jsval list) \<times> 'db world" where
  "early_batch_loop exec [] results w = (Inr results, w)"
| "early_batch_loop exec ((query, parameters) # rest) results w =
     (let args = batch_args parameters in
      case client_execute exec (query, args) w of
        (Inl err, w') \<Rightarrow> (Inl err, w')
      | (Inr result, w') \<Rightarrow> early_batch_loop exec rest (results @ [processResult result]) w')"

definition early_executeBatch :: "'db capability \<Rightarrow> parameters \<Rightarrow> 'db world \<Rightarrow> (thrown + jsval) \<times> 'db world" where
  "early_executeBatch exec p w =
     (case early_batch_loop exec (p_queries p) [] w of
        (Inl err, w') \<Rightarrow> (Inl err, w')
      | (Inr results, w') \<Rightarrow> (Inr (JArr results), w'))"

section \<open>Concrete descriptors, inputs and capabilities\<close>

text \<open>
  The descriptors are the node's defaults with the named parameters set. The runs read
  neither parameter of the runtime (every entry is a plain object, every number a safe
  integer), so they are stated for a runtime that answers undefined and no text. The
  capabilities run on a database of one state: one answers every statement with a
  result that has no field, one answers every statement with a given result, one throws
  on every statement, one throws on the statements of one text and answers the others.
\<close>

definition bare_runtime :: runtime where
  "bare_runtime = \<lparr> rt_inherited = (\<lambda>v name. JUndefined), rt_number_text = (\<lambda>q. []) \<rparr>"

definition insert_example :: parameters where
  "insert_example = default_parameters \<lparr> p_table := ''t'', p_columns := [''id'', ''name''],
     p_dataSource := ''manualInput'', p_valueItems := [''1'', ''a'', ''2'', ''b''] \<rparr>"

definition insert_no_values :: parameters where
  "insert_no_values = default_parameters \<lparr> p_table := ''t'', p_columns := [''id''],
     p_dataSource := ''manualInput'', p_valueItems := [] \<rparr>"

definition update_manual_example :: parameters where
  "update_manual_example = default_parameters \<lparr> p_table := ''t'', p_columns := [''a'', ''b''],
     p_dataSource := ''manualInput'', p_valueItems := [''1'', ''2''],
     p_whereClause := ''id = ?'', p_whereParams := [''5''] \<rparr>"

definition update_items_example :: parameters where
  "update_items_example = default_parameters \<lparr> p_table := ''t'', p_columns := [''a'', ''b''],
     p_whereClause := ''id = ?'', p_whereParams := [''5''] \<rparr>"

definition example_items :: "jsobject list" where
  "example_items = [[(''data'', JObj [(''a'', JNum 1), (''b'', JStr ''x'')])]]"

definition example_records :: "jsobject list list" where
  "example_records = [[[(''a'', JNum 1), (''b'', JStr ''x'')]]]"

definition describe_injection :: parameters where
  "describe_injection = default_parameters \<lparr> p_operation := ''describeTable'',
     p_table := ''t); DROP TABLE u; --'' \<rparr>"

definition select_injection :: parameters where
  "select_injection = default_parameters \<lparr> p_operation := ''selectRows'', p_table := ''t'',
     p_selectAllColumns := True, p_useOrderBy := True, p_orderBy := ''a; DROP TABLE t'' \<rparr>"

definition describe_example :: parameters where
  "describe_example = default_parameters \<lparr> p_operation := ''describeTable'', p_table := ''users'' \<rparr>"

definition select_order_example :: parameters where
  "select_order_example = default_parameters \<lparr> p_operation := ''selectRows'', p_table := ''t'',
     p_selectAllColumns := True, p_useOrderBy := True, p_orderBy := ''name'', p_orderDirection := ''DESC'' \<rparr>"

definition select_limit_example :: parameters where
  "select_limit_example = default_parameters \<lparr> p_operation := ''selectRows'', p_table := ''t'',
     p_columns := [''a''], p_useLimit := True, p_limit := Finite 10, p_offset := Finite 0 \<rparr>"

definition select_offset_example :: parameters where
  "select_offset_example = default_parameters \<lparr> p_operation := ''selectRows'', p_table := ''t'',
     p_columns := [''a''], p_useLimit := True, p_limit := Finite 10, p_offset := Finite 25 \<rparr>"

definition select_all_example :: parameters where
  "select_all_example = default_parameters \<lparr> p_operation := ''selectRows'', p_table := ''t'',
     p_columns := [''a'', ''b''], p_selectAllColumns := True \<rparr>"

definition select_columns_example :: parameters where
  "select_columns_example = default_parameters \<lparr> p_operation := ''selectRows'', p_table := ''t'',
     p_columns := [''a'', ''b''] \<rparr>"

definition empty_result :: ResultSet where
  "empty_result = \<lparr> rs_columns = None, rs_rows = None, rs_rowsAffected = None, rs_lastInsertRowid = None \<rparr>"

definition sample_result :: ResultSet where
  "sample_result =
     \<lparr> rs_columns = Some [ColumnString ''id'', ColumnObject ''name''],
       rs_rows = Some [JObj [(''id'', JNum 1), (''name'', JStr ''a'')]],
       rs_rowsAffected = Some 0, rs_lastInsertRowid = None \<rparr>"

definition always_ok :: "unit capability" where
  "always_ok s db = (Inr empty_result, db)"

definition answers :: "ResultSet \<Rightarrow> unit capability" where
  "answers result s db = (Inr result, db)"

definition query_example :: parameters where
  "query_example = default_parameters \<lparr> p_query := ''SELECT * FROM users WHERE id = ?'',
     p_queryParams := [''5''] \<rparr>"

definition blank_query_example :: parameters where
  "blank_query_example = default_parameters \<lparr> p_query := ''   '' \<rparr>"

definition batch_example :: parameters where
  "batch_example = default_parameters \<lparr> p_operation := ''executeBatch'',
     p_queries := [(''INSERT INTO t VALUES (?, ?)'', ''1, a''), (''SELECT 1'', '''')] \<rparr>"

definition batch_failing :: parameters where
  "batch_failing = default_parameters \<lparr> p_operation := ''executeBatch'',
     p_queries := [(''SELECT 1'', ''''), (''DELETE FROM u'', ''''), (''SELECT 2'', '''')] \<rparr>"

definition batch_middle_blank :: parameters where
  "batch_middle_blank = default_parameters \<lparr> p_operation := ''executeBatch'',
     p_queries := [(''SELECT 1'', ''''), ('' '', ''''), (''SELECT 2'', '''')] \<rparr>"

definition refuses_on :: "string \<Rightarrow> unit capability" where
  "refuses_on text s db =
     (if fst s = text then (Inl (LibsqlError ''no such table: u'' (Some ''SQLITE_ERROR'')), db)
      else (Inr empty_result, db))"

definition batch_late_blank :: parameters where
  "batch_late_blank = default_parameters \<lparr> p_operation := ''executeBatch'',
     p_queries := [(''SELECT 1'', ''''), ('''', '''')] \<rparr>"







definition full_result :: ResultSet where
  "full_result =
     \<lparr> rs_columns = Some [ColumnString ''id''], rs_rows = Some [JObj [(''id'', JNum 7)]],
       rs_rowsAffected = Some 1, rs_lastInsertRowid = Some (JNum 7) \<rparr>"

definition delete_example :: parameters where
  "delete_example = default_parameters \<lparr> p_operation := ''deleteRows'', p_table := ''t'',
     p_whereClause := ''id = ?'', p_whereParams := [''5''] \<rparr>"

definition refuses :: "unit capability" where
  "refuses s db = (Inl (LibsqlError ''no such table: t'' (Some ''SQLITE_ERROR'')), db)"

definition insert_ragged :: parameters where
  "insert_ragged = default_parameters \<lparr> p_table := ''t'', p_columns := [''id'', ''name''],
     p_dataSource := ''manualInput'', p_valueItems := [''1'', ''a'', ''2''] \<rparr>"
section \<open>Auxiliary facts\<close>

lemma not_blank_t: "\<not> blank ''t''"
  by (simp add: blank_def trim_def isWhiteSpace_def)

lemma not_blank_id: "\<not> blank ''id = ?''"
  by (simp add: blank_def trim_def isWhiteSpace_def)

lemma upt_2: "[0..<2] = [0, 1]"
  by (simp add: upt_rec)

lemmas blank_simps = blank_def trim_def isWhiteSpace_def

lemma handleDatabaseError_is_DatabaseError:
  "\<exists>m d. handleDatabaseError err operation = DatabaseError m d"
  by (cases err) (simp_all add: handleDatabaseError_def)

lemma client_execute_log:
  "client_execute exec s w = (r, w') \<Longrightarrow> snd w' = snd w @ [s]"
  by (auto simp: client_execute_def split: prod.splits)

section \<open>Grouping a flat value list\<close>

lemma ceil_div_step:
  fixes n j k :: nat
  assumes "0 < k" "j < n"
  shows "(n - j + k - 1) div k = Suc ((n - (j + k) + k - 1) div k)"
proof (cases "j + k \<le> n")
  case True
  have "n - j + k - 1 = (n - (j + k) + k - 1) + k" using True assms by linarith
  then have "(n - j + k - 1) div k = ((n - (j + k) + k - 1) + k) div k" by (rule arg_cong)
  also have "\<dots> = (n - (j + k) + k - 1) div k + 1"
    using assms(1) by (intro div_add_self2) simp
  finally show ?thesis by (simp only: Suc_eq_plus1)
next
  case False
  have z: "n - (j + k) = 0" using False by linarith
  have "n - j + k - 1 = (n - j - 1) + k" using assms by linarith
  then have "(n - j + k - 1) div k = ((n - j - 1) + k) div k" by (rule arg_cong)
  also have "\<dots> = (n - j - 1) div k + 1"
    using assms(1) by (intro div_add_self2) simp
  also have "(n - j - 1) div k = 0" using False assms by (intro div_less) linarith
  also have "(k - 1) div k = 0" using assms(1) by (intro div_less) linarith
  then have "(0::nat) + 1 = Suc ((n - (j + k) + k - 1) div k)" unfolding z by simp
  finally show ?thesis .
qed

lemma group_loop_stop:
  "\<not> j < length vs \<Longrightarrow> group_loop k vs sfx j rows = Some rows"
  by (subst group_loop.simps) simp

lemma group_loop_step:
  "j < length vs \<Longrightarrow>
   group_loop k vs sfx j rows = group_loop k vs sfx (j + k) (rows @ [slice vs j (j + k) @ sfx])"
  by (subst group_loop.simps) simp

lemma group_loop_Some:
  "0 < k \<Longrightarrow>
   group_loop k vs sfx j rows =
     Some (rows @ map (\<lambda>i. slice vs (j + i * k) (j + i * k + k) @ sfx) [0..<(length vs - j + k - 1) div k])"
proof (induction "length vs - j" arbitrary: j rows rule: less_induct)
  case less
  show ?case
  proof (cases "j < length vs")
    case False
    then have "(length vs - j + k - 1) div k = 0" using less.prems by simp
    then show ?thesis using group_loop_stop [OF False] by simp
  next
    case True
    have lt: "length vs - (j + k) < length vs - j" using True less.prems by simp
    have step: "(length vs - j + k - 1) div k = Suc ((length vs - (j + k) + k - 1) div k)"
      using ceil_div_step [OF less.prems True] .
    have shift: "map (\<lambda>i. slice vs (j + i * k) (j + i * k + k) @ sfx) [0..<Suc m] =
        (slice vs j (j + k) @ sfx) # map (\<lambda>i. slice vs (j + k + i * k) (j + k + i * k + k) @ sfx) [0..<m]" for m
      by (simp add: map_upt_Suc add.assoc del: upt_Suc)
    have "group_loop k vs sfx j rows =
            group_loop k vs sfx (j + k) (rows @ [slice vs j (j + k) @ sfx])"
      using group_loop_step [OF True] .
    also have "\<dots> = Some ((rows @ [slice vs j (j + k) @ sfx]) @
        map (\<lambda>i. slice vs (j + k + i * k) (j + k + i * k + k) @ sfx) [0..<(length vs - (j + k) + k - 1) div k])"
      using less.hyps [OF lt less.prems] .
    also have "\<dots> = Some (rows @ map (\<lambda>i. slice vs (j + i * k) (j + i * k + k) @ sfx) [0..<(length vs - j + k - 1) div k])"
      unfolding step shift by simp
    finally show ?thesis .
  qed
qed

lemma ceil_div_exact:
  fixes n k :: nat
  assumes "0 < k" "n mod k = 0"
  shows "(n - 0 + k - 1) div k = n div k"
proof -
  have "n = (n div k) * k" using assms(2) div_mult_mod_eq [of n k] by simp
  then obtain q where q: "n = q * k" ..
  have "n - 0 + k - 1 = (k - 1) + q * k" using assms(1) q by simp
  then have "(n - 0 + k - 1) div k = ((k - 1) + q * k) div k" by (rule arg_cong)
  also have "\<dots> = q + (k - 1) div k" using assms(1) by (intro div_mult_self1) simp
  also have "(k - 1) div k = 0" using assms(1) by (intro div_less) linarith
  finally show ?thesis using assms(1) q by simp
qed

lemma group_loop_exact:
  assumes "0 < k" "length vs mod k = 0"
  shows "group_loop k vs sfx 0 [] = Some (map (\<lambda>i. take k (drop (i * k) vs) @ sfx) [0..<length vs div k])"
proof -
  have "group_loop k vs sfx 0 [] =
      Some ([] @ map (\<lambda>i. slice vs (0 + i * k) (0 + i * k + k) @ sfx) [0..<(length vs - 0 + k - 1) div k])"
    using group_loop_Some [OF assms(1)] .
  then show ?thesis
    unfolding ceil_div_exact [OF assms] by (simp add: slice_def)
qed

lemma source_rows_manual:
  assumes "p_dataSource p = ''manualInput''" "p_columns p \<noteq> []" "p_valueItems p \<noteq> []"
  shows "source_rows rt verb p sfx items =
     (if length (p_valueItems p) mod length (p_columns p) \<noteq> 0
      then Some (Inl (ValidationError
             (''Values count ('' @ string_of_nat (length (p_valueItems p))
                @ '') is not a multiple of columns count ('' @ string_of_nat (length (p_columns p)) @ '')'')))
      else Some (Inr (map (\<lambda>i. map JStr (take (length (p_columns p)) (drop (i * length (p_columns p)) (p_valueItems p))) @ sfx)
                       [0..<length (p_valueItems p) div length (p_columns p)])))"
proof (cases "length (p_valueItems p) mod length (p_columns p) = 0")
  case False
  then show ?thesis using assms by (simp add: source_rows_def Let_def)
next
  case True
  have k: "0 < length (p_columns p)" using assms(2) by simp
  have m: "length (map JStr (p_valueItems p)) mod length (p_columns p) = 0" using True by simp
  show ?thesis
    using assms True group_loop_exact [OF k m, of sfx]
    by (simp add: source_rows_def Let_def take_map drop_map)
qed

lemma placeholders_replicate: "map (\<lambda>_. ''?'') cols = replicate (length cols) ''?''"
  by (induction cols) simp_all

text \<open>
  Claim C1, as the code has it. For an insert in manual-input mode with a table name that
  is not blank, \<open>k \<ge> 1\<close> columns and \<open>n\<close> values: building succeeds exactly when \<open>n \<ge> 1\<close>
  and \<open>n mod k = 0\<close>; it then yields \<open>n div k\<close> statements, all with the text
  \<^verbatim>\<open>INSERT INTO <table> (<cols>) VALUES (?, ..., ?)\<close> with one placeholder per column,
  the \<open>j\<close>-th carrying the \<open>j\<close>-th group of \<open>k\<close> consecutive values; with no value, or
  with a count that is not a multiple of \<open>k\<close>, it fails with a validation error.
\<close>

theorem insertRows_manual_groups:
  assumes "\<not> blank (p_table p)" and "p_columns p \<noteq> []" and "p_dataSource p = ''manualInput''"
  shows "((\<exists>plan. insertRows_build rt p items = Some (Inr plan))
            \<longleftrightarrow> p_valueItems p \<noteq> [] \<and> length (p_valueItems p) mod length (p_columns p) = 0)
       \<and> (p_valueItems p \<noteq> [] \<and> length (p_valueItems p) mod length (p_columns p) = 0 \<longrightarrow>
            insertRows_build rt p items =
              Some (Inr (map (\<lambda>j. (''INSERT INTO '' @ p_table p @ '' ('' @ join '', '' (p_columns p)
                                       @ '') VALUES ('' @ join '', '' (replicate (length (p_columns p)) ''?'') @ '')'',
                                     map JStr (take (length (p_columns p)) (drop (j * length (p_columns p)) (p_valueItems p)))))
                             [0..<length (p_valueItems p) div length (p_columns p)])))
       \<and> (p_valueItems p = [] \<or> length (p_valueItems p) mod length (p_columns p) \<noteq> 0 \<longrightarrow>
            (\<exists>msg. insertRows_build rt p items = Some (Inl (ValidationError msg))))"
proof (cases "p_valueItems p = []")
  case True
  then show ?thesis using assms
    by (simp add: insertRows_build_def source_rows_def Let_def)
next
  case False
  then show ?thesis
    using assms source_rows_manual [OF assms(3) assms(2) False, of rt "''insert''" "[]" items]
    by (simp add: insertRows_build_def Let_def insert_query_def placeholders_replicate comp_def)
qed

text \<open>
  The scenario of the specification (table \<open>t\<close>, columns \<open>id, name\<close>, values
  \<open>1, a, 2, b\<close>), and the same insert with three values.
\<close>

theorem insertRows_manual_groups_witness:
  "insertRows_build bare_runtime insert_example [] =
     Some (Inr [(''INSERT INTO t (id, name) VALUES (?, ?)'', [JStr ''1'', JStr ''a'']),
                (''INSERT INTO t (id, name) VALUES (?, ?)'', [JStr ''2'', JStr ''b''])])
   \<and> (\<exists>msg. insertRows_build bare_runtime insert_ragged [] = Some (Inl (ValidationError msg)))"
proof -
  have a: "\<not> blank (p_table insert_example)" "\<not> blank (p_table insert_ragged)"
    by (simp_all add: insert_example_def insert_ragged_def default_parameters_def not_blank_t)
  have b: "p_columns insert_example \<noteq> []" "p_columns insert_ragged \<noteq> []"
    by (simp_all add: insert_example_def insert_ragged_def default_parameters_def)
  have c: "p_dataSource insert_example = ''manualInput''" "p_dataSource insert_ragged = ''manualInput''"
    by (simp_all add: insert_example_def insert_ragged_def default_parameters_def)
  have l4: "length (p_valueItems insert_example) = 4" by (simp add: insert_example_def default_parameters_def)
  have l3: "length (p_valueItems insert_ragged) = 3" by (simp add: insert_ragged_def default_parameters_def)
  have l2: "length (p_columns insert_example) = 2" "length (p_columns insert_ragged) = 2"
    by (simp_all add: insert_example_def insert_ragged_def default_parameters_def)
  have r: "replicate 2 ''?'' = [''?'', ''?'']" by (simp add: numeral_2_eq_2)
  have first: "insertRows_build bare_runtime insert_example [] =
     Some (Inr [(''INSERT INTO t (id, name) VALUES (?, ?)'', [JStr ''1'', JStr ''a'']),
                (''INSERT INTO t (id, name) VALUES (?, ?)'', [JStr ''2'', JStr ''b''])])"
    using insertRows_manual_groups [OF a(1) b(1) c(1), of bare_runtime "[]", unfolded l4 l2]
    by (simp add: insert_example_def default_parameters_def upt_2 r)
  have second: "\<exists>msg. insertRows_build bare_runtime insert_ragged [] = Some (Inl (ValidationError msg))"
    using insertRows_manual_groups [OF a(2) b(2) c(2), of bare_runtime "[]", unfolded l3 l2]
    by simp
  show ?thesis using first second by blast
qed

text \<open>
  With no values at all the count is a multiple of the column count, yet the guard on an
  empty value list rejects the descriptor.
\<close>

theorem insertRows_no_values_counterexample:
  "\<not> blank (p_table insert_no_values)
   \<and> length (p_valueItems insert_no_values) mod length (p_columns insert_no_values) = 0
   \<and> insertRows_build bare_runtime insert_no_values [] =
       Some (Inl (ValidationError ''No values provided for insert operation''))"
  by (simp add: insert_no_values_def default_parameters_def not_blank_t insertRows_build_def
        source_rows_def Let_def)
section \<open>Rows from input items\<close>

lemma read_columns_length:
  "read_columns rt entry names = Inr row \<Longrightarrow> length row = length names"
  by (induction names arbitrary: row) (auto split: sum.splits)

lemma entries_loop_suffix:
  "entries_loop rt cols sfx es (map (\<lambda>r. r @ sfx) acc) =
     (case entries_loop rt cols [] es acc of Inl e \<Rightarrow> Inl e | Inr rows \<Rightarrow> Inr (map (\<lambda>r. r @ sfx) rows))"
proof (induction es arbitrary: acc)
  case Nil
  show ?case by simp
next
  case (Cons entry es)
  show ?case
  proof (cases "read_columns rt entry cols")
    case (Inl e)
    then show ?thesis by simp
  next
    case (Inr row)
    have "map (\<lambda>r. r @ sfx) acc @ [row @ sfx] = map (\<lambda>r. r @ sfx) (acc @ [row])" by simp
    then show ?thesis using Inr Cons.IH [of "acc @ [row]"] by simp
  qed
qed

lemma entries_loop_length:
  "entries_loop rt cols [] es acc = Inr rows \<Longrightarrow> \<forall>r\<in>set acc. length r = length cols
     \<Longrightarrow> \<forall>r\<in>set rows. length r = length cols"
proof (induction es arbitrary: acc)
  case Nil
  then have "rows = acc" by simp
  then show ?case using Nil.prems(2) by blast
next
  case (Cons entry es)
  show ?case
  proof (cases "read_columns rt entry cols")
    case (Inl e)
    then show ?thesis using Cons.prems(1) by simp
  next
    case (Inr row)
    have rest: "entries_loop rt cols [] es (acc @ [row]) = Inr rows"
      using Cons.prems(1) Inr by simp
    have len: "length row = length cols" using read_columns_length [OF Inr] .
    have "\<forall>r\<in>set (acc @ [row]). length r = length cols"
    proof
      fix r assume "r \<in> set (acc @ [row])"
      then have "r \<in> set acc \<or> r = row" by auto
      then show "length r = length cols" using Cons.prems(2) len by blast
    qed
    then show ?thesis by (rule Cons.IH [OF rest])
  qed
qed

lemma push_rowData_suffix:
  "push_rowData rt cols sfx rowData (map (\<lambda>r. r @ sfx) acc) =
     (case push_rowData rt cols [] rowData acc of Inl e \<Rightarrow> Inl e | Inr rows \<Rightarrow> Inr (map (\<lambda>r. r @ sfx) rows))"
  by (cases rowData) (simp_all add: entries_loop_suffix split: sum.splits)

lemma push_rowData_length:
  assumes "push_rowData rt cols [] rowData acc = Inr rows" and "\<forall>r\<in>set acc. length r = length cols"
  shows "\<forall>r\<in>set rows. length r = length cols"
proof (cases rowData)
  case (JArr entries)
  then have "entries_loop rt cols [] entries acc = Inr rows" using assms(1) by simp
  then show ?thesis using assms(2) by (rule entries_loop_length)
next
  case (JObj kvs)
  show ?thesis
  proof (cases "read_columns rt (JObj kvs) cols")
    case (Inl e)
    then show ?thesis using assms(1) JObj by simp
  next
    case (Inr row)
    then have rows: "rows = acc @ [row]" using assms(1) JObj by simp
    have len: "length row = length cols" using read_columns_length [OF Inr] .
    show ?thesis
    proof
      fix r assume "r \<in> set rows"
      then have "r \<in> set acc \<or> r = row" unfolding rows by auto
      then show "length r = length cols" using assms(2) len by blast
    qed
  qed
next
  case JUndefined
  then have "rows = acc" using assms(1) by simp
  then show ?thesis using assms(2) by blast
next
  case JNull
  then have "rows = acc" using assms(1) by simp
  then show ?thesis using assms(2) by blast
next
  case (JBool b)
  then have "rows = acc" using assms(1) by simp
  then show ?thesis using assms(2) by blast
next
  case (JNum n)
  then have "rows = acc" using assms(1) by simp
  then show ?thesis using assms(2) by blast
next
  case (JStr t)
  then have "rows = acc" using assms(1) by simp
  then show ?thesis using assms(2) by blast
next
  case (JFunction f)
  then have "rows = acc" using assms(1) by simp
  then show ?thesis using assms(2) by blast
qed

lemma items_loop_suffix:
  "items_loop rt path cols sfx items (map (\<lambda>r. r @ sfx) acc) =
     (case items_loop rt path cols [] items acc of Inl e \<Rightarrow> Inl e | Inr rows \<Rightarrow> Inr (map (\<lambda>r. r @ sfx) rows))"
proof (induction items arbitrary: acc)
  case Nil
  show ?case by simp
next
  case (Cons json items)
  show ?case
  proof (cases "item_rowData path json")
    case (Inl e)
    then show ?thesis by simp
  next
    case (Inr rowData)
    show ?thesis
    proof (cases "push_rowData rt cols [] rowData acc")
      case (Inl e)
      then show ?thesis using Inr push_rowData_suffix [of rt cols sfx rowData acc] by simp
    next
      case inner: (Inr rows')
      then show ?thesis
        using Inr push_rowData_suffix [of rt cols sfx rowData acc] Cons.IH [of rows'] by simp
    qed
  qed
qed

lemma items_loop_length:
  "items_loop rt path cols [] items acc = Inr rows \<Longrightarrow> \<forall>r\<in>set acc. length r = length cols
     \<Longrightarrow> \<forall>r\<in>set rows. length r = length cols"
proof (induction items arbitrary: acc)
  case Nil
  then have "rows = acc" by simp
  then show ?case using Nil.prems(2) by blast
next
  case (Cons json items)
  show ?case
  proof (cases "item_rowData path json")
    case (Inl e)
    then show ?thesis using Cons.prems(1) by simp
  next
    case (Inr rowData)
    show ?thesis
    proof (cases "push_rowData rt cols [] rowData acc")
      case (Inl e)
      then show ?thesis using Cons.prems(1) Inr by simp
    next
      case push: (Inr rows')
      have rest: "items_loop rt path cols [] items rows' = Inr rows"
        using Cons.prems(1) Inr push by simp
      have "\<forall>r\<in>set rows'. length r = length cols"
        using push_rowData_length [OF push Cons.prems(2)] .
      then show ?thesis by (rule Cons.IH [OF rest])
    qed
  qed
qed
section \<open>Rows from items that hold records\<close>

lemma read_columns_object:
  "read_columns rt (JObj kvs) names = Inr (map (record_value kvs) names)"
  by (induction names) simp_all

lemma entries_loop_objects:
  "entries_loop rt cols sfx (map JObj recs) acc =
     Inr (acc @ map (\<lambda>kvs. map (record_value kvs) cols @ sfx) recs)"
  by (induction recs arbitrary: acc) (simp_all add: read_columns_object)

lemma push_rowData_records:
  assumes "item_holds_records path json recs" and "item_rowData path json = Inr rowData"
  shows "push_rowData rt cols sfx rowData acc =
     Inr (acc @ map (\<lambda>kvs. map (record_value kvs) cols @ sfx) recs)"
proof -
  consider (arr) "rowData = JArr (map JObj recs)"
    | (obj) kvs where "recs = [kvs]" "rowData = JObj kvs"
    using assms by (cases recs) (auto simp: item_holds_records_def)
  then show ?thesis
  proof cases
    case arr
    then show ?thesis by (simp add: entries_loop_objects)
  next
    case obj
    then show ?thesis by (simp add: read_columns_object)
  qed
qed

lemma item_holds_records_rowData:
  "item_holds_records path json recs \<Longrightarrow> \<exists>rowData. item_rowData path json = Inr rowData"
  by (auto simp: item_holds_records_def)

lemma items_loop_records:
  "list_all2 (item_holds_records path) items recss \<Longrightarrow>
   items_loop rt path cols sfx items acc =
     Inr (acc @ map (\<lambda>kvs. map (record_value kvs) cols @ sfx) (concat recss))"
proof (induction items recss arbitrary: acc rule: list_all2_induct)
  case Nil
  show ?case by simp
next
  case (Cons json recs items recss)
  obtain rowData where rd: "item_rowData path json = Inr rowData"
    using item_holds_records_rowData [OF Cons.hyps(1)] by blast
  show ?case
    using rd push_rowData_records [OF Cons.hyps(1) rd, of rt cols sfx acc] Cons.IH
    by simp
qed

lemma source_rows_records:
  assumes "p_dataSource p \<noteq> ''manualInput''"
    and "list_all2 (item_holds_records (p_itemsPath p)) items recss" and "concat recss \<noteq> []"
  shows "source_rows rt verb p sfx items =
     Some (Inr (map (\<lambda>kvs. map (record_value kvs) (p_columns p) @ sfx) (concat recss)))"
  using assms items_loop_records [OF assms(2), of rt "p_columns p" sfx "[]"]
  by (simp add: source_rows_def Let_def)


lemma updateRows_records:
  assumes "p_dataSource p \<noteq> ''manualInput''" and "\<not> blank (p_table p)" and "p_columns p \<noteq> []"
    and "list_all2 (item_holds_records (p_itemsPath p)) items recss" and "concat recss \<noteq> []"
    and "\<not> blank (p_whereClause p)"
  shows "updateRows_build rt p items =
           Some (Inr (map (\<lambda>kvs. (update_query (p_table p) (p_columns p) (p_whereClause p),
                                   map (record_value kvs) (p_columns p) @ map JStr (p_whereParams p)))
                          (concat recss)))"
  using assms(2,3,6)
    source_rows_records [OF assms(1) assms(4) assms(5), of rt "''update''" "map JStr (p_whereParams p)"]
  by (simp add: updateRows_build_def Let_def comp_def)

lemma updateRows_manual:
  assumes "\<not> blank (p_table p)" and "p_columns p \<noteq> []" and "\<not> blank (p_whereClause p)"
    and "p_dataSource p = ''manualInput''"
  shows "updateRows_build rt p items =
     (if p_valueItems p = []
      then Some (Inl (ValidationError ''No values provided for update operation''))
      else if length (p_valueItems p) mod length (p_columns p) \<noteq> 0
      then Some (Inl (ValidationError
             (''Values count ('' @ string_of_nat (length (p_valueItems p))
                @ '') is not a multiple of columns count ('' @ string_of_nat (length (p_columns p)) @ '')'')))
      else Some (Inr (map (\<lambda>j. (update_query (p_table p) (p_columns p) (p_whereClause p),
                               map JStr (take (length (p_columns p)) (drop (j * length (p_columns p)) (p_valueItems p)))
                                 @ map JStr (p_whereParams p)))
                       [0..<length (p_valueItems p) div length (p_columns p)])))"
proof (cases "p_valueItems p = []")
  case True
  then show ?thesis using assms
    by (simp add: updateRows_build_def source_rows_def Let_def)
next
  case False
  then show ?thesis
    using assms source_rows_manual [OF assms(4) assms(2) False, of rt "''update''" "map JStr (p_whereParams p)" items]
    by (simp add: updateRows_build_def Let_def comp_def)
qed

lemma updateRows_build_requires:
  assumes "blank (p_table p) \<or> p_columns p = [] \<or> blank (p_whereClause p)"
  shows "\<exists>msg. updateRows_build rt p items = Some (Inl (ValidationError msg))"
  using assms by (auto simp: updateRows_build_def Let_def)
section \<open>Update rows: argument order\<close>

lemma group_length:
  fixes i k :: nat
  assumes "i < length vs div k"
  shows "length (take k (drop (i * k) vs)) = k"
proof -
  have "Suc i * k \<le> (length vs div k) * k" using assms by (intro mult_le_mono1) simp
  also have "\<dots> \<le> length vs" by simp
  finally have "i * k + k \<le> length vs" by simp
  then show ?thesis by simp
qed

lemma source_rows_suffix:
  assumes "p_columns p \<noteq> []" and "source_rows rt verb p sfx items = Some (Inr rows')"
  shows "\<exists>rows. source_rows rt verb p [] items = Some (Inr rows)
           \<and> rows' = map (\<lambda>r. r @ sfx) rows
           \<and> (\<forall>r\<in>set rows. length r = length (p_columns p))"
proof (cases "p_dataSource p = ''manualInput''")
  case True
  have ne: "p_valueItems p \<noteq> []"
    using assms(2) True by (auto simp: source_rows_def Let_def)
  define k where "k = length (p_columns p)"
  define n where "n = length (p_valueItems p)"
  have m: "n mod k = 0"
    using assms(2) source_rows_manual [OF True assms(1) ne, of rt verb sfx items]
    unfolding k_def n_def by (auto split: if_splits)
  let ?rows = "map (\<lambda>i. map JStr (take k (drop (i * k) (p_valueItems p)))) [0..<n div k]"
  have a: "source_rows rt verb p [] items = Some (Inr ?rows)"
    using m source_rows_manual [OF True assms(1) ne, of rt verb "[]" items]
    unfolding k_def n_def by simp
  have b: "rows' = map (\<lambda>r. r @ sfx) ?rows"
    using m assms(2) source_rows_manual [OF True assms(1) ne, of rt verb sfx items]
    unfolding k_def n_def by (simp add: comp_def)
  have c: "\<forall>r\<in>set ?rows. length r = k"
    using group_length [of _ "p_valueItems p" k] unfolding n_def by auto
  show ?thesis using a b c unfolding k_def by blast
next
  case False
  show ?thesis
  proof (cases "items_loop rt (p_itemsPath p) (p_columns p) [] items []")
    case (Inl e)
    then show ?thesis
      using assms(2) False items_loop_suffix [of rt "p_itemsPath p" "p_columns p" sfx items "[]"]
      by (simp add: source_rows_def Let_def)
  next
    case (Inr rows)
    have sfx: "items_loop rt (p_itemsPath p) (p_columns p) sfx items [] = Inr (map (\<lambda>r. r @ sfx) rows)"
      using Inr items_loop_suffix [of rt "p_itemsPath p" "p_columns p" sfx items "[]"] by simp
    have ne: "rows \<noteq> []" and r': "rows' = map (\<lambda>r. r @ sfx) rows"
      using assms(2) False sfx by (auto simp: source_rows_def Let_def split: if_splits)
    have a: "source_rows rt verb p [] items = Some (Inr rows)"
      using False Inr ne by (simp add: source_rows_def Let_def)
    have c: "\<forall>r\<in>set rows. length r = length (p_columns p)"
      using items_loop_length [OF Inr] by simp
    show ?thesis using a r' c by blast
  qed
qed

lemma updateRows_plan_shape:
  assumes "updateRows_build rt p items = Some (Inr plan)"
  shows "(\<forall>s\<in>set plan.
            fst s = ''UPDATE '' @ p_table p @ '' SET '' @ join '', '' (map (\<lambda>col. col @ '' = ?'') (p_columns p))
                      @ '' WHERE '' @ p_whereClause p
          \<and> length (snd s) = length (p_columns p) + length (p_whereParams p)
          \<and> drop (length (p_columns p)) (snd s) = map JStr (p_whereParams p))
       \<and> (\<exists>rows. source_rows rt ''update'' p [] items = Some (Inr rows)
            \<and> (\<forall>row\<in>set rows. length row = length (p_columns p))
            \<and> plan = map (\<lambda>row. (''UPDATE '' @ p_table p @ '' SET ''
                                      @ join '', '' (map (\<lambda>col. col @ '' = ?'') (p_columns p))
                                      @ '' WHERE '' @ p_whereClause p,
                                    row @ map JStr (p_whereParams p))) rows)"
proof -
  have cols: "p_columns p \<noteq> []"
    using assms by (auto simp: updateRows_build_def Let_def split: if_splits)
  obtain rows' where src: "source_rows rt ''update'' p (map JStr (p_whereParams p)) items = Some (Inr rows')"
    and plan: "plan = map (\<lambda>row. (update_query (p_table p) (p_columns p) (p_whereClause p), row)) rows'"
    using assms by (auto simp: updateRows_build_def Let_def split: if_splits option.splits sum.splits)
  from source_rows_suffix [OF cols src] obtain rows where
    a: "source_rows rt ''update'' p [] items = Some (Inr rows)"
    and b: "rows' = map (\<lambda>r. r @ map JStr (p_whereParams p)) rows"
    and c: "\<forall>r\<in>set rows. length r = length (p_columns p)"
    by blast
  have p2: "plan = map (\<lambda>row. (''UPDATE '' @ p_table p @ '' SET ''
                                      @ join '', '' (map (\<lambda>col. col @ '' = ?'') (p_columns p))
                                      @ '' WHERE '' @ p_whereClause p,
                                    row @ map JStr (p_whereParams p))) rows"
    unfolding plan b by (simp add: update_query_def comp_def)
  have "\<forall>s\<in>set plan.
            fst s = ''UPDATE '' @ p_table p @ '' SET '' @ join '', '' (map (\<lambda>col. col @ '' = ?'') (p_columns p))
                      @ '' WHERE '' @ p_whereClause p
          \<and> length (snd s) = length (p_columns p) + length (p_whereParams p)
          \<and> drop (length (p_columns p)) (snd s) = map JStr (p_whereParams p)"
    unfolding p2 using c by auto
  then show ?thesis using a c p2 by blast
qed

text \<open>
  Claim C2. An update needs a table name, a column list and a where clause; without one
  of them it fails with a validation error. In manual-input mode it builds exactly when
  there is a value and the count is a multiple of the \<open>k\<close> columns, and in input-items
  mode it builds whenever the items hold at least one record. Every statement built has
  the text \<^verbatim>\<open>UPDATE <table> SET col1 = ?, ..., colk = ? WHERE <whereClause>\<close> and \<open>k + m\<close>
  arguments: the \<open>k\<close> values of the row (the \<open>j\<close>-th group of values, or the values read
  from the record by column name) followed by the \<open>m\<close> where parameters.
\<close>

theorem updateRows_args_order:
  "(blank (p_table p) \<or> p_columns p = [] \<or> blank (p_whereClause p) \<longrightarrow>
      (\<exists>msg. updateRows_build rt p items = Some (Inl (ValidationError msg))))
   \<and> (\<not> blank (p_table p) \<and> p_columns p \<noteq> [] \<and> \<not> blank (p_whereClause p)
        \<and> p_dataSource p = ''manualInput'' \<longrightarrow>
        ((\<exists>plan. updateRows_build rt p items = Some (Inr plan))
           \<longleftrightarrow> p_valueItems p \<noteq> [] \<and> length (p_valueItems p) mod length (p_columns p) = 0)
      \<and> (p_valueItems p \<noteq> [] \<and> length (p_valueItems p) mod length (p_columns p) = 0 \<longrightarrow>
           updateRows_build rt p items =
             Some (Inr (map (\<lambda>j. (''UPDATE '' @ p_table p @ '' SET ''
                                     @ join '', '' (map (\<lambda>col. col @ '' = ?'') (p_columns p))
                                     @ '' WHERE '' @ p_whereClause p,
                                   map JStr (take (length (p_columns p))
                                               (drop (j * length (p_columns p)) (p_valueItems p)))
                                     @ map JStr (p_whereParams p)))
                            [0..<length (p_valueItems p) div length (p_columns p)]))))
   \<and> (\<not> blank (p_table p) \<and> p_columns p \<noteq> [] \<and> \<not> blank (p_whereClause p)
        \<and> p_dataSource p \<noteq> ''manualInput''
        \<and> list_all2 (item_holds_records (p_itemsPath p)) items recss \<and> concat recss \<noteq> [] \<longrightarrow>
        updateRows_build rt p items =
          Some (Inr (map (\<lambda>kvs. (''UPDATE '' @ p_table p @ '' SET ''
                                    @ join '', '' (map (\<lambda>col. col @ '' = ?'') (p_columns p))
                                    @ '' WHERE '' @ p_whereClause p,
                                  map (record_value kvs) (p_columns p) @ map JStr (p_whereParams p)))
                         (concat recss))))
   \<and> (\<forall>plan. updateRows_build rt p items = Some (Inr plan) \<longrightarrow>
        (\<forall>s\<in>set plan.
            fst s = ''UPDATE '' @ p_table p @ '' SET '' @ join '', '' (map (\<lambda>col. col @ '' = ?'') (p_columns p))
                      @ '' WHERE '' @ p_whereClause p
          \<and> length (snd s) = length (p_columns p) + length (p_whereParams p)
          \<and> drop (length (p_columns p)) (snd s) = map JStr (p_whereParams p))
        \<and> (\<exists>rows. source_rows rt ''update'' p [] items = Some (Inr rows)
            \<and> (\<forall>row\<in>set rows. length row = length (p_columns p))
            \<and> plan = map (\<lambda>row. (''UPDATE '' @ p_table p @ '' SET ''
                                      @ join '', '' (map (\<lambda>col. col @ '' = ?'') (p_columns p))
                                      @ '' WHERE '' @ p_whereClause p,
                                    row @ map JStr (p_whereParams p))) rows))"
proof -
  have c1: "blank (p_table p) \<or> p_columns p = [] \<or> blank (p_whereClause p) \<longrightarrow>
      (\<exists>msg. updateRows_build rt p items = Some (Inl (ValidationError msg)))"
    using updateRows_build_requires [of p rt items] by blast
  have c2: "\<not> blank (p_table p) \<and> p_columns p \<noteq> [] \<and> \<not> blank (p_whereClause p)
        \<and> p_dataSource p = ''manualInput'' \<longrightarrow>
        ((\<exists>plan. updateRows_build rt p items = Some (Inr plan))
           \<longleftrightarrow> p_valueItems p \<noteq> [] \<and> length (p_valueItems p) mod length (p_columns p) = 0)
      \<and> (p_valueItems p \<noteq> [] \<and> length (p_valueItems p) mod length (p_columns p) = 0 \<longrightarrow>
           updateRows_build rt p items =
             Some (Inr (map (\<lambda>j. (''UPDATE '' @ p_table p @ '' SET ''
                                     @ join '', '' (map (\<lambda>col. col @ '' = ?'') (p_columns p))
                                     @ '' WHERE '' @ p_whereClause p,
                                   map JStr (take (length (p_columns p))
                                               (drop (j * length (p_columns p)) (p_valueItems p)))
                                     @ map JStr (p_whereParams p)))
                            [0..<length (p_valueItems p) div length (p_columns p)])))"
  proof
    assume h: "\<not> blank (p_table p) \<and> p_columns p \<noteq> [] \<and> \<not> blank (p_whereClause p)
        \<and> p_dataSource p = ''manualInput''"
    have m: "updateRows_build rt p items =
     (if p_valueItems p = []
      then Some (Inl (ValidationError ''No values provided for update operation''))
      else if length (p_valueItems p) mod length (p_columns p) \<noteq> 0
      then Some (Inl (ValidationError
             (''Values count ('' @ string_of_nat (length (p_valueItems p))
                @ '') is not a multiple of columns count ('' @ string_of_nat (length (p_columns p)) @ '')'')))
      else Some (Inr (map (\<lambda>j. (update_query (p_table p) (p_columns p) (p_whereClause p),
                               map JStr (take (length (p_columns p)) (drop (j * length (p_columns p)) (p_valueItems p)))
                                 @ map JStr (p_whereParams p)))
                       [0..<length (p_valueItems p) div length (p_columns p)])))"
      using h by (intro updateRows_manual) simp_all
    show "((\<exists>plan. updateRows_build rt p items = Some (Inr plan))
           \<longleftrightarrow> p_valueItems p \<noteq> [] \<and> length (p_valueItems p) mod length (p_columns p) = 0)
      \<and> (p_valueItems p \<noteq> [] \<and> length (p_valueItems p) mod length (p_columns p) = 0 \<longrightarrow>
           updateRows_build rt p items =
             Some (Inr (map (\<lambda>j. (''UPDATE '' @ p_table p @ '' SET ''
                                     @ join '', '' (map (\<lambda>col. col @ '' = ?'') (p_columns p))
                                     @ '' WHERE '' @ p_whereClause p,
                                   map JStr (take (length (p_columns p))
                                               (drop (j * length (p_columns p)) (p_valueItems p)))
                                     @ map JStr (p_whereParams p)))
                            [0..<length (p_valueItems p) div length (p_columns p)])))"
      unfolding m by (simp add: update_query_def)
  qed
  have c3: "\<not> blank (p_table p) \<and> p_columns p \<noteq> [] \<and> \<not> blank (p_whereClause p)
        \<and> p_dataSource p \<noteq> ''manualInput''
        \<and> list_all2 (item_holds_records (p_itemsPath p)) items recss \<and> concat recss \<noteq> [] \<longrightarrow>
        updateRows_build rt p items =
          Some (Inr (map (\<lambda>kvs. (''UPDATE '' @ p_table p @ '' SET ''
                                    @ join '', '' (map (\<lambda>col. col @ '' = ?'') (p_columns p))
                                    @ '' WHERE '' @ p_whereClause p,
                                  map (record_value kvs) (p_columns p) @ map JStr (p_whereParams p)))
                         (concat recss)))"
  proof
    assume h: "\<not> blank (p_table p) \<and> p_columns p \<noteq> [] \<and> \<not> blank (p_whereClause p)
        \<and> p_dataSource p \<noteq> ''manualInput''
        \<and> list_all2 (item_holds_records (p_itemsPath p)) items recss \<and> concat recss \<noteq> []"
    have "updateRows_build rt p items =
           Some (Inr (map (\<lambda>kvs. (update_query (p_table p) (p_columns p) (p_whereClause p),
                                   map (record_value kvs) (p_columns p) @ map JStr (p_whereParams p)))
                          (concat recss)))"
      using h by (intro updateRows_records) simp_all
    then show "updateRows_build rt p items =
          Some (Inr (map (\<lambda>kvs. (''UPDATE '' @ p_table p @ '' SET ''
                                    @ join '', '' (map (\<lambda>col. col @ '' = ?'') (p_columns p))
                                    @ '' WHERE '' @ p_whereClause p,
                                  map (record_value kvs) (p_columns p) @ map JStr (p_whereParams p)))
                         (concat recss)))"
      by (simp add: update_query_def)
  qed
  have c4: "\<forall>plan. updateRows_build rt p items = Some (Inr plan) \<longrightarrow>
        (\<forall>s\<in>set plan.
            fst s = ''UPDATE '' @ p_table p @ '' SET '' @ join '', '' (map (\<lambda>col. col @ '' = ?'') (p_columns p))
                      @ '' WHERE '' @ p_whereClause p
          \<and> length (snd s) = length (p_columns p) + length (p_whereParams p)
          \<and> drop (length (p_columns p)) (snd s) = map JStr (p_whereParams p))
        \<and> (\<exists>rows. source_rows rt ''update'' p [] items = Some (Inr rows)
            \<and> (\<forall>row\<in>set rows. length row = length (p_columns p))
            \<and> plan = map (\<lambda>row. (''UPDATE '' @ p_table p @ '' SET ''
                                      @ join '', '' (map (\<lambda>col. col @ '' = ?'') (p_columns p))
                                      @ '' WHERE '' @ p_whereClause p,
                                    row @ map JStr (p_whereParams p))) rows)"
    using updateRows_plan_shape [of rt p items] by blast
  show ?thesis by (intro conjI c1 c2 c3 c4)
qed

text \<open>
  One update in manual-input mode, one in input-items mode, and the same one without a
  where clause.
\<close>

theorem updateRows_args_order_witness:
  "updateRows_build bare_runtime update_manual_example [] =
     Some (Inr [(''UPDATE t SET a = ?, b = ? WHERE id = ?'', [JStr ''1'', JStr ''2'', JStr ''5''])])
   \<and> updateRows_build bare_runtime update_items_example example_items =
     Some (Inr [(''UPDATE t SET a = ?, b = ? WHERE id = ?'', [JNum 1, JStr ''x'', JStr ''5''])])
   \<and> (\<exists>msg. updateRows_build bare_runtime (update_items_example\<lparr>p_whereClause := []\<rparr>) example_items =
         Some (Inl (ValidationError msg)))"
proof -
  have l: "length (p_valueItems update_manual_example) = 2" "length (p_columns update_manual_example) = 2"
    by (simp_all add: update_manual_example_def default_parameters_def)
  have hm: "\<not> blank (p_table update_manual_example) \<and> p_columns update_manual_example \<noteq> []
      \<and> \<not> blank (p_whereClause update_manual_example) \<and> p_dataSource update_manual_example = ''manualInput''"
    by (simp add: update_manual_example_def default_parameters_def not_blank_t not_blank_id)
  have vm: "p_valueItems update_manual_example \<noteq> []"
    by (simp add: update_manual_example_def default_parameters_def)
  have first: "updateRows_build bare_runtime update_manual_example [] =
     Some (Inr [(''UPDATE t SET a = ?, b = ? WHERE id = ?'', [JStr ''1'', JStr ''2'', JStr ''5''])])"
    using updateRows_args_order [of update_manual_example bare_runtime "[]" "[]", unfolded l] hm vm
    by (simp add: update_manual_example_def default_parameters_def)
  have hi: "\<not> blank (p_table update_items_example) \<and> p_columns update_items_example \<noteq> []
      \<and> \<not> blank (p_whereClause update_items_example) \<and> p_dataSource update_items_example \<noteq> ''manualInput''
      \<and> list_all2 (item_holds_records (p_itemsPath update_items_example)) example_items example_records
      \<and> concat example_records \<noteq> []"
    by (simp add: update_items_example_def default_parameters_def not_blank_t not_blank_id
          example_items_def example_records_def item_holds_records_def item_rowData_def record_value_def)
  have second: "updateRows_build bare_runtime update_items_example example_items =
     Some (Inr [(''UPDATE t SET a = ?, b = ? WHERE id = ?'', [JNum 1, JStr ''x'', JStr ''5''])])"
    using updateRows_args_order [of update_items_example bare_runtime example_items example_records] hi
    by (simp add: update_items_example_def default_parameters_def example_records_def record_value_def)
  have third: "\<exists>msg. updateRows_build bare_runtime (update_items_example\<lparr>p_whereClause := []\<rparr>) example_items =
         Some (Inl (ValidationError msg))"
    using updateRows_args_order [of "update_items_example\<lparr>p_whereClause := []\<rparr>" bare_runtime example_items "[]"]
    by (simp add: blank_def)
  show ?thesis using first second third by blast
qed
section \<open>Select rows and describe table: the statement text\<close>

lemma selectRows_build_Inr_iff:
  "selectRows_build rt p = Inr s \<longleftrightarrow>
     \<not> blank (p_table p)
     \<and> (p_selectAllColumns p \<or> p_columns p \<noteq> [])
     \<and> (p_useWhere p \<longrightarrow> \<not> blank (p_whereClauseSelect p))
     \<and> (p_useOrderBy p \<longrightarrow> \<not> blank (p_orderBy p))
     \<and> (p_useLimit p \<longrightarrow> \<not> le_zero (p_limit p))
     \<and> s = (''SELECT '' @ (if p_selectAllColumns p then ''*'' else join '', '' (p_columns p))
              @ '' FROM '' @ p_table p
              @ (if p_useWhere p then '' WHERE '' @ p_whereClauseSelect p else [])
              @ (if p_useOrderBy p then '' ORDER BY '' @ p_orderBy p @ '' '' @ p_orderDirection p else [])
              @ (if p_useLimit p
                 then '' LIMIT '' @ number_to_string rt (p_limit p)
                      @ (if gt_zero (p_offset p) then '' OFFSET '' @ number_to_string rt (p_offset p) else [])
                 else []),
             if p_useWhere p then map JStr (p_whereParamsSelect p) else [])"
  by (auto simp: selectRows_build_def select_columnsList_def select_where_def
        select_orderByClause_def select_limitOffsetClause_def Let_def)

lemma selectRows_build_Inl:
  "selectRows_build rt p = Inl e \<Longrightarrow> \<exists>msg. e = ValidationError msg"
  by (auto simp: selectRows_build_def select_columnsList_def select_where_def
        select_orderByClause_def select_limitOffsetClause_def Let_def split: if_splits)

text \<open>
  A table name and an order-by column that are not identifiers are interpolated as they
  are: the statement text that contains them is produced.
\<close>

theorem interpolated_identifier_counterexample:
  "\<not> identifier_syntax (p_table describe_injection)
   \<and> describeTable_build describe_injection = Inr (''PRAGMA table_info(t); DROP TABLE u; --)'', [])
   \<and> \<not> identifier_syntax (p_orderBy select_injection)
   \<and> selectRows_build bare_runtime select_injection = Inr (''SELECT * FROM t ORDER BY a; DROP TABLE t ASC'', [])"
  by (simp add: describe_injection_def select_injection_def default_parameters_def
        identifier_syntax_def identifier_char_def describeTable_build_def blank_simps
        selectRows_build_Inr_iff)

text \<open>
  Claim C3, as the code has it. The only check on the table name of a describe and on the
  order-by column of a select is that it is not blank: a blank one is rejected with a
  validation error before any statement text is produced, and every other one is
  inserted verbatim, in \<^verbatim>\<open>PRAGMA table_info(<table>)\<close> and in
  \<^verbatim>\<open>ORDER BY <column> <direction>\<close>. No allow-list and no identifier-syntax check is
  applied.
\<close>

theorem interpolated_identifiers_nonblank_only:
  "describeTable_build p =
     (if blank (p_table p) then Inl (ValidationError ''Table name cannot be empty'')
      else Inr (''PRAGMA table_info('' @ p_table p @ '')'', []))
   \<and> (p_useOrderBy p \<and> blank (p_orderBy p) \<longrightarrow> (\<exists>msg. selectRows_build rt p = Inl (ValidationError msg)))
   \<and> (p_useOrderBy p \<longrightarrow>
        (selectRows_build rt p = Inr s \<longleftrightarrow>
           \<not> blank (p_orderBy p)
           \<and> \<not> blank (p_table p)
           \<and> (p_selectAllColumns p \<or> p_columns p \<noteq> [])
           \<and> (p_useWhere p \<longrightarrow> \<not> blank (p_whereClauseSelect p))
           \<and> (p_useLimit p \<longrightarrow> \<not> le_zero (p_limit p))
           \<and> s = (''SELECT '' @ (if p_selectAllColumns p then ''*'' else join '', '' (p_columns p))
                    @ '' FROM '' @ p_table p
                    @ (if p_useWhere p then '' WHERE '' @ p_whereClauseSelect p else [])
                    @ '' ORDER BY '' @ p_orderBy p @ '' '' @ p_orderDirection p
                    @ (if p_useLimit p
                       then '' LIMIT '' @ number_to_string rt (p_limit p)
                            @ (if gt_zero (p_offset p) then '' OFFSET '' @ number_to_string rt (p_offset p) else [])
                       else []),
                   if p_useWhere p then map JStr (p_whereParamsSelect p) else [])))"
proof -
  have a: "describeTable_build p =
     (if blank (p_table p) then Inl (ValidationError ''Table name cannot be empty'')
      else Inr (''PRAGMA table_info('' @ p_table p @ '')'', []))"
    by (simp add: describeTable_build_def Let_def)
  have b: "\<exists>msg. selectRows_build rt p = Inl (ValidationError msg)"
    if "p_useOrderBy p" "blank (p_orderBy p)"
  proof (cases "selectRows_build rt p")
    case (Inl e)
    then show ?thesis using selectRows_build_Inl [OF Inl] by simp
  next
    case (Inr s')
    then show ?thesis using that selectRows_build_Inr_iff [of rt p s'] by simp
  qed
  have c: ?thesis if "\<not> p_useOrderBy p" using a that by simp
  have d: ?thesis if "p_useOrderBy p"
    using a b that selectRows_build_Inr_iff [of rt p s] by auto
  show ?thesis using c d by blast
qed

text \<open>
  A describe of table \<open>users\<close> and a select ordered by \<open>name\<close>, descending; the same
  with a table name and an order-by column of one space.
\<close>

theorem interpolated_identifiers_nonblank_only_witness:
  "describeTable_build describe_example = Inr (''PRAGMA table_info(users)'', [])
   \<and> selectRows_build bare_runtime select_order_example = Inr (''SELECT * FROM t ORDER BY name DESC'', [])
   \<and> describeTable_build (describe_example\<lparr>p_table := '' ''\<rparr>)
        = Inl (ValidationError ''Table name cannot be empty'')
   \<and> (\<exists>msg. selectRows_build bare_runtime (select_order_example\<lparr>p_orderBy := '' ''\<rparr>) = Inl (ValidationError msg))"
  using interpolated_identifiers_nonblank_only
          [of describe_example]
        interpolated_identifiers_nonblank_only
          [of select_order_example bare_runtime "(''SELECT * FROM t ORDER BY name DESC'', [])"]
        interpolated_identifiers_nonblank_only
          [of "describe_example\<lparr>p_table := '' ''\<rparr>"]
        interpolated_identifiers_nonblank_only
          [of "select_order_example\<lparr>p_orderBy := '' ''\<rparr>"]
  by (simp add: describe_example_def select_order_example_def default_parameters_def blank_simps)

lemma number_to_string_safe_integer:
  assumes "\<bar>n\<bar> \<le> 9007199254740991"
  shows "number_to_string rt (Finite (of_int n)) =
           (if n < 0 then ''-'' @ string_of_nat (nat (- n)) else string_of_nat (nat n))"
proof -
  have "\<bar>(of_int n :: rat)\<bar> \<le> 9007199254740991"
    using assms by (metis of_int_abs of_int_le_iff of_int_numeral)
  then show ?thesis by (simp add: number_to_string_def)
qed

text \<open>
  Claim C7. For a select with the limit option enabled: a limit \<^verbatim>\<open><= 0\<close> fails with a
  validation error; any other limit, when the table, the columns, the where clause and
  the order-by column pass their checks, gives the statement that ends with
  \<^verbatim>\<open> LIMIT <limit>\<close>, followed by \<^verbatim>\<open> OFFSET <offset>\<close> exactly when the offset is
  \<^verbatim>\<open>> 0\<close>; both numbers are printed into the text as the template literal prints them
  (a safe integer in plain decimal) and the arguments are the where parameters alone.
\<close>

theorem selectRows_limit_offset:
  assumes "p_useLimit p"
  shows "(le_zero (p_limit p) \<longrightarrow> (\<exists>msg. selectRows_build rt p = Inl (ValidationError msg)))
     \<and> (\<not> le_zero (p_limit p) \<and> \<not> blank (p_table p)
          \<and> (p_selectAllColumns p \<or> p_columns p \<noteq> [])
          \<and> (p_useWhere p \<longrightarrow> \<not> blank (p_whereClauseSelect p))
          \<and> (p_useOrderBy p \<longrightarrow> \<not> blank (p_orderBy p)) \<longrightarrow>
          selectRows_build rt p =
            Inr ((''SELECT '' @ (if p_selectAllColumns p then ''*'' else join '', '' (p_columns p))
                    @ '' FROM '' @ p_table p
                    @ (if p_useWhere p then '' WHERE '' @ p_whereClauseSelect p else [])
                    @ (if p_useOrderBy p then '' ORDER BY '' @ p_orderBy p @ '' '' @ p_orderDirection p else []))
                 @ '' LIMIT '' @ number_to_string rt (p_limit p)
                 @ (if gt_zero (p_offset p) then '' OFFSET '' @ number_to_string rt (p_offset p) else []),
                 if p_useWhere p then map JStr (p_whereParamsSelect p) else []))
     \<and> (\<forall>sql args. selectRows_build rt p = Inr (sql, args) \<longrightarrow>
          \<not> le_zero (p_limit p)
          \<and> sql = (''SELECT '' @ (if p_selectAllColumns p then ''*'' else join '', '' (p_columns p))
                     @ '' FROM '' @ p_table p
                     @ (if p_useWhere p then '' WHERE '' @ p_whereClauseSelect p else [])
                     @ (if p_useOrderBy p then '' ORDER BY '' @ p_orderBy p @ '' '' @ p_orderDirection p else []))
                  @ '' LIMIT '' @ number_to_string rt (p_limit p)
                  @ (if gt_zero (p_offset p) then '' OFFSET '' @ number_to_string rt (p_offset p) else [])
          \<and> args = (if p_useWhere p then map JStr (p_whereParamsSelect p) else []))
     \<and> (\<forall>n. \<bar>n\<bar> \<le> 9007199254740991 \<longrightarrow>
          number_to_string rt (Finite (of_int n)) =
            (if n < 0 then ''-'' @ string_of_nat (nat (- n)) else string_of_nat (nat n)))
     \<and> number_to_string rt NaN = ''NaN''
     \<and> number_to_string rt PosInfinity = ''Infinity''"
proof -
  have a: "le_zero (p_limit p) \<longrightarrow> (\<exists>msg. selectRows_build rt p = Inl (ValidationError msg))"
  proof
    assume le: "le_zero (p_limit p)"
    show "\<exists>msg. selectRows_build rt p = Inl (ValidationError msg)"
    proof (cases "selectRows_build rt p")
      case (Inl e)
      then show ?thesis using selectRows_build_Inl [OF Inl] by simp
    next
      case (Inr s')
      then show ?thesis using le assms selectRows_build_Inr_iff [of rt p s'] by simp
    qed
  qed
  have b: "\<not> le_zero (p_limit p) \<and> \<not> blank (p_table p)
          \<and> (p_selectAllColumns p \<or> p_columns p \<noteq> [])
          \<and> (p_useWhere p \<longrightarrow> \<not> blank (p_whereClauseSelect p))
          \<and> (p_useOrderBy p \<longrightarrow> \<not> blank (p_orderBy p)) \<longrightarrow>
          selectRows_build rt p =
            Inr ((''SELECT '' @ (if p_selectAllColumns p then ''*'' else join '', '' (p_columns p))
                    @ '' FROM '' @ p_table p
                    @ (if p_useWhere p then '' WHERE '' @ p_whereClauseSelect p else [])
                    @ (if p_useOrderBy p then '' ORDER BY '' @ p_orderBy p @ '' '' @ p_orderDirection p else []))
                 @ '' LIMIT '' @ number_to_string rt (p_limit p)
                 @ (if gt_zero (p_offset p) then '' OFFSET '' @ number_to_string rt (p_offset p) else []),
                 if p_useWhere p then map JStr (p_whereParamsSelect p) else [])"
    using assms by (simp add: selectRows_build_Inr_iff)
  have c: "\<forall>sql args. selectRows_build rt p = Inr (sql, args) \<longrightarrow>
          \<not> le_zero (p_limit p)
          \<and> sql = (''SELECT '' @ (if p_selectAllColumns p then ''*'' else join '', '' (p_columns p))
                     @ '' FROM '' @ p_table p
                     @ (if p_useWhere p then '' WHERE '' @ p_whereClauseSelect p else [])
                     @ (if p_useOrderBy p then '' ORDER BY '' @ p_orderBy p @ '' '' @ p_orderDirection p else []))
                  @ '' LIMIT '' @ number_to_string rt (p_limit p)
                  @ (if gt_zero (p_offset p) then '' OFFSET '' @ number_to_string rt (p_offset p) else [])
          \<and> args = (if p_useWhere p then map JStr (p_whereParamsSelect p) else [])"
    using assms by (simp add: selectRows_build_Inr_iff)
  have d: "\<forall>n. \<bar>n\<bar> \<le> 9007199254740991 \<longrightarrow>
          number_to_string rt (Finite (of_int n)) =
            (if n < 0 then ''-'' @ string_of_nat (nat (- n)) else string_of_nat (nat n))"
    using number_to_string_safe_integer by blast
  have e: "number_to_string rt NaN = ''NaN''" "number_to_string rt PosInfinity = ''Infinity''"
    by (simp_all add: number_to_string_def)
  show ?thesis by (intro conjI a b c d e)
qed

text \<open>
  The scenario of the specification (limit 10, offset 0), the same select with offset
  25, with limit 0, and with a limit that is not a number.
\<close>

theorem selectRows_limit_offset_witness:
  "selectRows_build bare_runtime select_limit_example = Inr (''SELECT a FROM t LIMIT 10'', [])
   \<and> selectRows_build bare_runtime select_offset_example = Inr (''SELECT a FROM t LIMIT 10 OFFSET 25'', [])
   \<and> (\<exists>msg. selectRows_build bare_runtime (select_limit_example\<lparr>p_limit := Finite 0\<rparr>)
         = Inl (ValidationError msg))
   \<and> selectRows_build bare_runtime (select_limit_example\<lparr>p_limit := NaN\<rparr>)
        = Inr (''SELECT a FROM t LIMIT NaN'', [])"
proof -
  have l: "p_useLimit select_limit_example" "p_useLimit select_offset_example"
      "p_useLimit (select_limit_example\<lparr>p_limit := Finite 0\<rparr>)"
      "p_useLimit (select_limit_example\<lparr>p_limit := NaN\<rparr>)"
    by (simp_all add: select_limit_example_def select_offset_example_def default_parameters_def)
  have n: "number_to_string bare_runtime (Finite 10) = ''10''"
      "number_to_string bare_runtime (Finite 25) = ''25''"
    by (simp_all add: number_to_string_def string_of_nat.simps)
  have first: "selectRows_build bare_runtime select_limit_example = Inr (''SELECT a FROM t LIMIT 10'', [])"
    using selectRows_limit_offset [OF l(1), of bare_runtime, THEN conjunct2, THEN conjunct1]
    by (simp add: select_limit_example_def default_parameters_def n blank_simps le_zero_def gt_zero_def)
  have second: "selectRows_build bare_runtime select_offset_example
      = Inr (''SELECT a FROM t LIMIT 10 OFFSET 25'', [])"
    using selectRows_limit_offset [OF l(2), of bare_runtime, THEN conjunct2, THEN conjunct1]
    by (simp add: select_offset_example_def default_parameters_def n blank_simps le_zero_def gt_zero_def)
  have third: "\<exists>msg. selectRows_build bare_runtime (select_limit_example\<lparr>p_limit := Finite 0\<rparr>)
         = Inl (ValidationError msg)"
    using selectRows_limit_offset [OF l(3), of bare_runtime, THEN conjunct1] by (simp add: le_zero_def)
  have fourth: "selectRows_build bare_runtime (select_limit_example\<lparr>p_limit := NaN\<rparr>)
        = Inr (''SELECT a FROM t LIMIT NaN'', [])"
    using selectRows_limit_offset [OF l(4), of bare_runtime, THEN conjunct2, THEN conjunct1]
    by (simp add: select_limit_example_def default_parameters_def blank_simps le_zero_def gt_zero_def
          number_to_string_def)
  show ?thesis using first second third fourth by blast
qed

text \<open>
  Claim C8. With the select-all-columns flag set the column clause is \<open>*\<close>, whatever the
  column list holds; with the flag unset an empty column list fails with a validation
  error, and a non-empty one gives the columns joined with a comma and a space.
\<close>

theorem selectRows_column_clause:
  "(p_selectAllColumns p \<longrightarrow>
       select_columnsList p = Inr ''*''
       \<and> selectRows_build rt (p\<lparr>p_columns := cs\<rparr>) = selectRows_build rt p
       \<and> (\<forall>sql args. selectRows_build rt p = Inr (sql, args) \<longrightarrow>
             (\<exists>rest. sql = ''SELECT '' @ ''*'' @ '' FROM '' @ p_table p @ rest)))
   \<and> (\<not> p_selectAllColumns p \<and> p_columns p = [] \<longrightarrow>
       select_columnsList p = Inl (ValidationError ''At least one column must be selected'')
       \<and> (\<exists>msg. selectRows_build rt p = Inl (ValidationError msg)))
   \<and> (\<not> p_selectAllColumns p \<and> p_columns p \<noteq> [] \<longrightarrow>
       select_columnsList p = Inr (join '', '' (p_columns p))
       \<and> (\<forall>sql args. selectRows_build rt p = Inr (sql, args) \<longrightarrow>
             (\<exists>rest. sql = ''SELECT '' @ join '', '' (p_columns p) @ '' FROM '' @ p_table p @ rest)))"
proof -
  have a: "select_columnsList p = Inr ''*''" if "p_selectAllColumns p"
    using that by (simp add: select_columnsList_def)
  have b: "selectRows_build rt (p\<lparr>p_columns := cs\<rparr>) = selectRows_build rt p" if "p_selectAllColumns p"
    using that
    by (simp add: selectRows_build_def select_columnsList_def select_where_def
          select_orderByClause_def select_limitOffsetClause_def Let_def)
  have c: "\<exists>rest. sql = ''SELECT '' @ ''*'' @ '' FROM '' @ p_table p @ rest"
    if "p_selectAllColumns p" "selectRows_build rt p = Inr (sql, args)" for sql args
    using that selectRows_build_Inr_iff [of rt p "(sql, args)"] by simp
  have d: "select_columnsList p = Inl (ValidationError ''At least one column must be selected'')"
    if "\<not> p_selectAllColumns p" "p_columns p = []"
    using that by (simp add: select_columnsList_def)
  have e: "\<exists>msg. selectRows_build rt p = Inl (ValidationError msg)"
    if "\<not> p_selectAllColumns p" "p_columns p = []"
  proof (cases "selectRows_build rt p")
    case (Inl e)
    then show ?thesis using selectRows_build_Inl [OF Inl] by simp
  next
    case (Inr s')
    then show ?thesis using that selectRows_build_Inr_iff [of rt p s'] by simp
  qed
  have f: "select_columnsList p = Inr (join '', '' (p_columns p))"
    if "\<not> p_selectAllColumns p" "p_columns p \<noteq> []"
    using that by (simp add: select_columnsList_def)
  have g: "\<exists>rest. sql = ''SELECT '' @ join '', '' (p_columns p) @ '' FROM '' @ p_table p @ rest"
    if "\<not> p_selectAllColumns p" "selectRows_build rt p = Inr (sql, args)" for sql args
    using that selectRows_build_Inr_iff [of rt p "(sql, args)"] by simp
  show ?thesis using a b c d e f g by blast
qed

text \<open>
  Select-all with a column list present and with none; a two-column select; an empty
  column list without the flag.
\<close>

theorem selectRows_column_clause_witness:
  "selectRows_build bare_runtime select_all_example = Inr (''SELECT * FROM t'', [])
   \<and> selectRows_build bare_runtime (select_all_example\<lparr>p_columns := []\<rparr>) = Inr (''SELECT * FROM t'', [])
   \<and> selectRows_build bare_runtime select_columns_example = Inr (''SELECT a, b FROM t'', [])
   \<and> select_columnsList (select_columns_example\<lparr>p_columns := []\<rparr>)
        = Inl (ValidationError ''At least one column must be selected'')
   \<and> (\<exists>msg. selectRows_build bare_runtime (select_columns_example\<lparr>p_columns := []\<rparr>) = Inl (ValidationError msg))"
proof -
  have b: "selectRows_build bare_runtime select_all_example = Inr (''SELECT * FROM t'', [])"
    by (simp add: selectRows_build_Inr_iff select_all_example_def default_parameters_def blank_simps)
  have c: "selectRows_build bare_runtime select_columns_example = Inr (''SELECT a, b FROM t'', [])"
    by (simp add: selectRows_build_Inr_iff select_columns_example_def default_parameters_def blank_simps)
  have s: "p_selectAllColumns select_all_example"
    by (simp add: select_all_example_def default_parameters_def)
  have n: "\<not> p_selectAllColumns (select_columns_example\<lparr>p_columns := []\<rparr>)"
      "p_columns (select_columns_example\<lparr>p_columns := []\<rparr>) = []"
      "\<not> p_selectAllColumns select_columns_example" "p_columns select_columns_example \<noteq> []"
    by (simp_all add: select_columns_example_def default_parameters_def)
  show ?thesis
    using selectRows_column_clause [of select_all_example bare_runtime "[]"]
      selectRows_column_clause [of "select_columns_example\<lparr>p_columns := []\<rparr>" bare_runtime "[]"]
      selectRows_column_clause [of select_columns_example bare_runtime "[]"]
      s n b c
    by simp
qed
section \<open>Execute query, execute batch and the normalised result\<close>

text \<open>
  Claim C4. For every raw result, whichever of its four fields are present, the
  normalised result has all four fields: the column names in order, a plain string kept
  and an object replaced by its name; the rows; an absent \<open>columns\<close> or \<open>rows\<close> is the
  empty sequence; an absent \<open>rowsAffected\<close> or \<open>lastInsertRowid\<close> stays undefined.
  Nothing raises after a call of the capability that returned: the query operation
  returns that normalised result.
\<close>

theorem processResult_total:
  "processResult result =
     JObj [(''columns'',
            JArr (map JStr (case rs_columns result of
                              None \<Rightarrow> []
                            | Some cs \<Rightarrow> map (\<lambda>c. case c of ColumnString s \<Rightarrow> s | ColumnObject name \<Rightarrow> name) cs))),
           (''rows'', JArr (case rs_rows result of None \<Rightarrow> [] | Some rs \<Rightarrow> rs)),
           (''rowsAffected'', case rs_rowsAffected result of None \<Rightarrow> JUndefined | Some n \<Rightarrow> JNum n),
           (''lastInsertRowid'', case rs_lastInsertRowid result of None \<Rightarrow> JUndefined | Some v \<Rightarrow> v)]
   \<and> (\<not> blank (p_query p)
        \<and> exec (p_query p, map JStr (p_queryParams p)) (fst w) = (Inr result, db')
        \<longrightarrow> fst (executeQuery exec p w) = Inr (processResult result))"
proof -
  have cn: "columnName = (\<lambda>c. case c of ColumnString s \<Rightarrow> s | ColumnObject name \<Rightarrow> name)"
    by (rule ext) (simp add: columnName_def)
  show ?thesis
    unfolding cn [symmetric]
    by (simp add: processResult_def columnNames_of_def rows_of_def rowsAffected_of_def
          lastInsertRowid_of_def executeQuery_def client_execute_def Let_def)
qed

text \<open>A result with one column of each form, and a result with every field absent.\<close>

theorem processResult_total_witness:
  "processResult sample_result =
     JObj [(''columns'', JArr [JStr ''id'', JStr ''name'']),
           (''rows'', JArr [JObj [(''id'', JNum 1), (''name'', JStr ''a'')]]),
           (''rowsAffected'', JNum 0),
           (''lastInsertRowid'', JUndefined)]
   \<and> processResult empty_result =
     JObj [(''columns'', JArr []), (''rows'', JArr []),
           (''rowsAffected'', JUndefined), (''lastInsertRowid'', JUndefined)]
   \<and> fst (executeQuery (answers sample_result) query_example ((), [])) = Inr (processResult sample_result)"
  using processResult_total [of sample_result query_example "answers sample_result" "((), [])" "()"]
    processResult_total [of empty_result query_example "answers empty_result" "((), [])" "()"]
  by (simp add: sample_result_def empty_result_def answers_def query_example_def
        default_parameters_def blank_def trim_def isWhiteSpace_def)

text \<open>
  Claim C6. A blank query fails with a validation error and the world is unchanged: no
  call of the capability. Otherwise exactly one statement is submitted, whose text is the
  query as given and whose arguments are the parameter values in the order given.
\<close>

theorem executeQuery_submits_query_unchanged:
  "(blank (p_query p) \<longrightarrow>
      executeQuery exec p w = (Inl (ValidationError ''SQL query cannot be empty''), w))
   \<and> (\<not> blank (p_query p) \<longrightarrow>
      snd (snd (executeQuery exec p w)) = snd w @ [(p_query p, map JStr (p_queryParams p))])"
  by (simp add: executeQuery_def client_execute_def Let_def split: prod.splits sum.splits)

text \<open>A query of three spaces, and a query with one parameter.\<close>

theorem executeQuery_submits_query_unchanged_witness:
  "executeQuery always_ok blank_query_example ((), []) =
     (Inl (ValidationError ''SQL query cannot be empty''), ((), []))
   \<and> snd (snd (executeQuery always_ok query_example ((), []))) =
     [(''SELECT * FROM users WHERE id = ?'', [JStr ''5''])]"
  using executeQuery_submits_query_unchanged [of blank_query_example always_ok "((), [])"]
    executeQuery_submits_query_unchanged [of query_example always_ok "((), [])"]
  by (simp add: blank_query_example_def query_example_def default_parameters_def
        blank_def trim_def isWhiteSpace_def)

lemma batch_loop_calls:
  "batch_loop exec qs acc w = (r, w') \<Longrightarrow>
     \<exists>n\<le>length qs.
        snd w' = snd w @ map (\<lambda>(q, ps). (q, batch_args ps)) (take n qs)
      \<and> (\<forall>i<n. \<not> blank (fst (qs ! i)))
      \<and> (\<forall>m. r = Inl (ValidationError m) \<longrightarrow> n < length qs \<and> blank (fst (qs ! n)))
      \<and> (\<forall>m d. r = Inl (DatabaseError m d) \<longrightarrow> 0 < n)
      \<and> (\<forall>m. r \<noteq> Inl (TypeError m))
      \<and> (\<forall>results. r = Inr results \<longrightarrow> n = length qs)"
proof (induction qs arbitrary: acc w)
  case Nil
  then show ?case by auto
next
  case (Cons qp rest)
  obtain q ps where qp: "qp = (q, ps)" by (cases qp)
  show ?case
  proof (cases "blank q")
    case True
    then have "r = Inl (ValidationError ''SQL query cannot be empty'')" and "w' = w"
      using Cons.prems qp by simp_all
    then show ?thesis using True qp by (intro exI [of _ 0]) simp
  next
    case False
    obtain x w1 where ce: "client_execute exec (q, batch_args ps) w = (x, w1)"
      by (cases "client_execute exec (q, batch_args ps) w")
    have log1: "snd w1 = snd w @ [(q, batch_args ps)]"
      using client_execute_log [OF ce] .
    show ?thesis
    proof (cases x)
      case (Inl err)
      then have r: "r = Inl (handleDatabaseError err (''Execute Batch - Query: '' @ q))" and w: "w' = w1"
        using Cons.prems qp False ce by simp_all
      obtain m d where md: "handleDatabaseError err (''Execute Batch - Query: '' @ q) = DatabaseError m d"
        using handleDatabaseError_is_DatabaseError by blast
      show ?thesis
        using r w md log1 False qp by (intro exI [of _ 1]) simp
    next
      case (Inr result)
      then have rec: "batch_loop exec rest (acc @ [processResult result]) w1 = (r, w')"
        using Cons.prems qp False ce by simp
      from Cons.IH [OF rec] obtain n where n: "n \<le> length rest"
        and log: "snd w' = snd w1 @ map (\<lambda>(q, ps). (q, batch_args ps)) (take n rest)"
        and nb: "\<forall>i<n. \<not> blank (fst (rest ! i))"
        and ve: "\<forall>m. r = Inl (ValidationError m) \<longrightarrow> n < length rest \<and> blank (fst (rest ! n))"
        and te: "\<forall>m. r \<noteq> Inl (TypeError m)"
        and ok: "\<forall>results. r = Inr results \<longrightarrow> n = length rest"
        by blast
      have nb': "\<forall>i<Suc n. \<not> blank (fst ((qp # rest) ! i))"
        using nb False qp by (auto simp: nth_Cons split: nat.splits)
      have log': "snd w' = snd w @ map (\<lambda>(q, ps). (q, batch_args ps)) (take (Suc n) (qp # rest))"
        using log log1 qp by simp
      show ?thesis
        using n log' nb' ve te ok by (intro exI [of _ "Suc n"]) simp
    qed
  qed
qed

lemma batch_loop_append:
  "batch_loop exec (pre @ rest) acc w =
     (case batch_loop exec pre acc w of
        (Inl e, w1) \<Rightarrow> (Inl e, w1)
      | (Inr results, w1) \<Rightarrow> batch_loop exec rest results w1)"
proof (induction pre arbitrary: acc w)
  case Nil
  show ?case by simp
next
  case (Cons qp pre)
  obtain q ps where qp: "qp = (q, ps)" by (cases qp)
  show ?case
    unfolding qp using Cons.IH
    by (simp add: Let_def split: prod.splits sum.splits)
qed

lemma batch_loop_prefix_log:
  assumes "batch_loop exec pre acc w = (Inr results, w1)"
  shows "snd w1 = snd w @ map (\<lambda>(q, ps). (q, batch_args ps)) pre"
proof -
  from batch_loop_calls [OF assms] obtain n where n: "n \<le> length pre"
    and log: "snd w1 = snd w @ map (\<lambda>(q, ps). (q, batch_args ps)) (take n pre)"
    and ok: "\<forall>res. (Inr results :: error + jsval list) = Inr res \<longrightarrow> n = length pre"
    by blast
  have "n = length pre" using ok by blast
  then show ?thesis using log by simp
qed

lemma executeBatch_after_prefix:
  assumes pq: "p_queries p = pre @ (q, ps) # post"
    and bl: "batch_loop exec pre [] w = (Inr results, w1)"
  shows "executeBatch exec p w =
     (case batch_loop exec ((q, ps) # post) results w1 of
        (Inl e, w2) \<Rightarrow> (Inl e, w2)
      | (Inr res, w2) \<Rightarrow> (Inr (JArr res), w2))"
proof -
  have "batch_loop exec (p_queries p) [] w = batch_loop exec ((q, ps) # post) results w1"
    unfolding pq by (subst batch_loop_append) (simp add: bl)
  moreover have "p_queries p \<noteq> []" using pq by simp
  ultimately show ?thesis by (simp add: executeBatch_def)
qed

text \<open>
  Claim C5, as the code has it. The statements a batch submits are a prefix of its query
  list, in order, and every submitted entry has a query that is not blank. An empty list,
  or a blank query in the first entry, fails with a validation error before any call of
  the capability. A blank query in a later entry is found when the loop reaches it: the
  validation error comes after the entries before it were submitted, and nothing from that
  entry on is submitted. When the capability throws, the entry that threw is the last one
  submitted. A batch that returns has submitted every entry.

  The loop stops at the first entry that fails. Let the entries before an entry
  \<open>(q, ps)\<close> have run and succeeded, leaving the world \<open>w1\<close>, whose log is the log at the
  start followed by their statements. If \<open>q\<close> is blank the batch ends there with the
  validation error and the world \<open>w1\<close>: the entry and everything after it is not
  submitted. If \<open>q\<close> is not blank and the capability throws on its statement, the batch
  ends there with the database error made from what was thrown, and the log is that of
  \<open>w1\<close> followed by this one statement: nothing after it is submitted. If the capability
  answers, the loop goes on to the next entry with the normalised result appended.
\<close>

theorem executeBatch_validation_order:
  assumes "executeBatch exec p w = (r, w')"
  shows "(\<exists>n\<le>length (p_queries p).
           snd w' = snd w @ map (\<lambda>(q, ps). (q, batch_args ps)) (take n (p_queries p))
         \<and> (\<forall>i<n. \<not> blank (fst (p_queries p ! i)))
         \<and> (p_queries p = [] \<longrightarrow>
               r = Inl (ValidationError ''At least one query is required for batch execution'') \<and> w' = w)
         \<and> (\<forall>q ps rest. p_queries p = (q, ps) # rest \<and> blank q \<longrightarrow>
               r = Inl (ValidationError ''SQL query cannot be empty'') \<and> w' = w)
         \<and> (\<forall>m. r = Inl (ValidationError m) \<and> p_queries p \<noteq> [] \<longrightarrow>
               n < length (p_queries p) \<and> blank (fst (p_queries p ! n)))
         \<and> (\<forall>m d. r = Inl (DatabaseError m d) \<longrightarrow> 0 < n)
         \<and> (\<forall>v. r = Inr v \<longrightarrow> n = length (p_queries p)))
     \<and> (\<forall>pre q ps post results w1.
           p_queries p = pre @ (q, ps) # post \<and> batch_loop exec pre [] w = (Inr results, w1) \<longrightarrow>
             snd w1 = snd w @ map (\<lambda>(q, ps). (q, batch_args ps)) pre
           \<and> (blank q \<longrightarrow>
                executeBatch exec p w = (Inl (ValidationError ''SQL query cannot be empty''), w1))
           \<and> (\<forall>err db'. \<not> blank q \<and> exec (q, batch_args ps) (fst w1) = (Inl err, db') \<longrightarrow>
                executeBatch exec p w =
                  (Inl (handleDatabaseError err (''Execute Batch - Query: '' @ q)),
                   (db', snd w1 @ [(q, batch_args ps)])))
           \<and> (\<forall>result db'. \<not> blank q \<and> exec (q, batch_args ps) (fst w1) = (Inr result, db') \<longrightarrow>
                batch_loop exec (pre @ [(q, ps)]) [] w =
                  (Inr (results @ [processResult result]), (db', snd w1 @ [(q, batch_args ps)]))))"
proof -
  have prefix_part: "\<exists>n\<le>length (p_queries p).
           snd w' = snd w @ map (\<lambda>(q, ps). (q, batch_args ps)) (take n (p_queries p))
         \<and> (\<forall>i<n. \<not> blank (fst (p_queries p ! i)))
         \<and> (p_queries p = [] \<longrightarrow>
               r = Inl (ValidationError ''At least one query is required for batch execution'') \<and> w' = w)
         \<and> (\<forall>q ps rest. p_queries p = (q, ps) # rest \<and> blank q \<longrightarrow>
               r = Inl (ValidationError ''SQL query cannot be empty'') \<and> w' = w)
         \<and> (\<forall>m. r = Inl (ValidationError m) \<and> p_queries p \<noteq> [] \<longrightarrow>
               n < length (p_queries p) \<and> blank (fst (p_queries p ! n)))
         \<and> (\<forall>m d. r = Inl (DatabaseError m d) \<longrightarrow> 0 < n)
         \<and> (\<forall>v. r = Inr v \<longrightarrow> n = length (p_queries p))"
  proof (cases "p_queries p = []")
    case True
    then have "r = Inl (ValidationError ''At least one query is required for batch execution'')" and "w' = w"
      using assms by (simp_all add: executeBatch_def)
    then show ?thesis using True by (intro exI [of _ 0]) simp
  next
    case False
    obtain x w1 where bl: "batch_loop exec (p_queries p) [] w = (x, w1)"
      by (cases "batch_loop exec (p_queries p) [] w")
    have w: "w' = w1" using assms False bl by (cases x) (simp_all add: executeBatch_def)
    have rx: "\<And>e. (r = Inl e) = (x = Inl e)" "\<And>v. r = Inr v \<Longrightarrow> \<exists>results. x = Inr results"
      using assms False bl by (cases x; auto simp: executeBatch_def)+
    from batch_loop_calls [OF bl] obtain n where n: "n \<le> length (p_queries p)"
      and log: "snd w1 = snd w @ map (\<lambda>(q, ps). (q, batch_args ps)) (take n (p_queries p))"
      and nb: "\<forall>i<n. \<not> blank (fst (p_queries p ! i))"
      and ve: "\<forall>m. x = Inl (ValidationError m) \<longrightarrow> n < length (p_queries p) \<and> blank (fst (p_queries p ! n))"
      and de: "\<forall>m d. x = Inl (DatabaseError m d) \<longrightarrow> 0 < n"
      and ok: "\<forall>results. x = Inr results \<longrightarrow> n = length (p_queries p)"
      by blast
    have first: "r = Inl (ValidationError ''SQL query cannot be empty'') \<and> w' = w"
      if "p_queries p = (q, ps) # rest" "blank q" for q ps rest
      using that assms by (simp add: executeBatch_def)
    show ?thesis
    proof (intro exI [of _ n] conjI)
      show "n \<le> length (p_queries p)" using n .
      show "snd w' = snd w @ map (\<lambda>(q, ps). (q, batch_args ps)) (take n (p_queries p))"
        using log w by simp
      show "\<forall>i<n. \<not> blank (fst (p_queries p ! i))" using nb .
      show "p_queries p = [] \<longrightarrow>
              r = Inl (ValidationError ''At least one query is required for batch execution'') \<and> w' = w"
        using False by simp
      show "\<forall>q ps rest. p_queries p = (q, ps) # rest \<and> blank q \<longrightarrow>
              r = Inl (ValidationError ''SQL query cannot be empty'') \<and> w' = w"
        using first by blast
      show "\<forall>m. r = Inl (ValidationError m) \<and> p_queries p \<noteq> [] \<longrightarrow>
              n < length (p_queries p) \<and> blank (fst (p_queries p ! n))"
        using ve rx(1) by blast
      show "\<forall>m d. r = Inl (DatabaseError m d) \<longrightarrow> 0 < n"
        using de rx(1) by blast
      show "\<forall>v. r = Inr v \<longrightarrow> n = length (p_queries p)"
        using ok rx(2) by blast
    qed
  qed
  have abort_part: "\<forall>pre q ps post results w1.
           p_queries p = pre @ (q, ps) # post \<and> batch_loop exec pre [] w = (Inr results, w1) \<longrightarrow>
             snd w1 = snd w @ map (\<lambda>(q, ps). (q, batch_args ps)) pre
           \<and> (blank q \<longrightarrow>
                executeBatch exec p w = (Inl (ValidationError ''SQL query cannot be empty''), w1))
           \<and> (\<forall>err db'. \<not> blank q \<and> exec (q, batch_args ps) (fst w1) = (Inl err, db') \<longrightarrow>
                executeBatch exec p w =
                  (Inl (handleDatabaseError err (''Execute Batch - Query: '' @ q)),
                   (db', snd w1 @ [(q, batch_args ps)])))
           \<and> (\<forall>result db'. \<not> blank q \<and> exec (q, batch_args ps) (fst w1) = (Inr result, db') \<longrightarrow>
                batch_loop exec (pre @ [(q, ps)]) [] w =
                  (Inr (results @ [processResult result]), (db', snd w1 @ [(q, batch_args ps)])))"
  proof (intro allI impI, elim conjE)
    fix pre q ps post results w1
    assume pq: "p_queries p = pre @ (q, ps) # post"
      and bl: "batch_loop exec pre [] w = (Inr results, w1)"
    note run = executeBatch_after_prefix [OF pq bl]
    have log: "snd w1 = snd w @ map (\<lambda>(q, ps). (q, batch_args ps)) pre"
      using batch_loop_prefix_log [OF bl] .
    have blank_case: "blank q \<longrightarrow>
        executeBatch exec p w = (Inl (ValidationError ''SQL query cannot be empty''), w1)"
      using run by simp
    have throw_case: "\<forall>err db'. \<not> blank q \<and> exec (q, batch_args ps) (fst w1) = (Inl err, db') \<longrightarrow>
        executeBatch exec p w =
          (Inl (handleDatabaseError err (''Execute Batch - Query: '' @ q)),
           (db', snd w1 @ [(q, batch_args ps)]))"
      using run by (simp add: client_execute_def)
    have answer_case: "\<forall>result db'. \<not> blank q \<and> exec (q, batch_args ps) (fst w1) = (Inr result, db') \<longrightarrow>
        batch_loop exec (pre @ [(q, ps)]) [] w =
          (Inr (results @ [processResult result]), (db', snd w1 @ [(q, batch_args ps)]))"
      by (subst batch_loop_append) (simp add: bl client_execute_def)
    show "snd w1 = snd w @ map (\<lambda>(q, ps). (q, batch_args ps)) pre
           \<and> (blank q \<longrightarrow>
                executeBatch exec p w = (Inl (ValidationError ''SQL query cannot be empty''), w1))
           \<and> (\<forall>err db'. \<not> blank q \<and> exec (q, batch_args ps) (fst w1) = (Inl err, db') \<longrightarrow>
                executeBatch exec p w =
                  (Inl (handleDatabaseError err (''Execute Batch - Query: '' @ q)),
                   (db', snd w1 @ [(q, batch_args ps)])))
           \<and> (\<forall>result db'. \<not> blank q \<and> exec (q, batch_args ps) (fst w1) = (Inr result, db') \<longrightarrow>
                batch_loop exec (pre @ [(q, ps)]) [] w =
                  (Inr (results @ [processResult result]), (db', snd w1 @ [(q, batch_args ps)])))"
      using log blank_case throw_case answer_case by blast
  qed
  show ?thesis using prefix_part abort_part by (rule conjI)
qed

lemma batch_example_run:
  "executeBatch always_ok batch_example ((), []) =
     (Inr (JArr [processResult empty_result, processResult empty_result]),
      ((), [(''INSERT INTO t VALUES (?, ?)'', [JStr ''1'', JStr ''a'']), (''SELECT 1'', [])]))"
  by (simp add: executeBatch_def batch_example_def default_parameters_def blank_def trim_def
        isWhiteSpace_def batch_args_def client_execute_def always_ok_def)

lemma batch_refused_run:
  "executeBatch refuses batch_example ((), []) =
     (Inl (DatabaseError ''Database error in \"Execute Batch - Query: INSERT INTO t VALUES (?, ?)\": no such table: t''
            (Some ''Error code: SQLITE_ERROR'')),
      ((), [(''INSERT INTO t VALUES (?, ?)'', [JStr ''1'', JStr ''a''])]))"
  by (simp add: executeBatch_def batch_example_def default_parameters_def blank_def trim_def
        isWhiteSpace_def batch_args_def client_execute_def refuses_def handleDatabaseError_def)

text \<open>
  A batch of two valid entries; the empty batch; a batch whose first query is one space;
  the two valid entries against a capability that throws; a batch of three entries whose
  second statement the capability refuses; a batch of three entries whose second query
  is one space. In the last two the third entry is never submitted.
\<close>

theorem executeBatch_validation_order_witness:
  "snd (snd (executeBatch always_ok batch_example ((), []))) =
     [(''INSERT INTO t VALUES (?, ?)'', [JStr ''1'', JStr ''a'']), (''SELECT 1'', [])]
   \<and> executeBatch always_ok (batch_example\<lparr>p_queries := []\<rparr>) ((), []) =
     (Inl (ValidationError ''At least one query is required for batch execution''), ((), []))
   \<and> executeBatch always_ok (batch_example\<lparr>p_queries := [('' '', ''''), (''SELECT 1'', '''')]\<rparr>) ((), []) =
     (Inl (ValidationError ''SQL query cannot be empty''), ((), []))
   \<and> snd (snd (executeBatch refuses batch_example ((), []))) =
     [(''INSERT INTO t VALUES (?, ?)'', [JStr ''1'', JStr ''a''])]
   \<and> executeBatch (refuses_on ''DELETE FROM u'') batch_failing ((), []) =
     (Inl (DatabaseError ''Database error in \"Execute Batch - Query: DELETE FROM u\": no such table: u''
            (Some ''Error code: SQLITE_ERROR'')),
      ((), [(''SELECT 1'', []), (''DELETE FROM u'', [])]))
   \<and> executeBatch always_ok batch_middle_blank ((), []) =
     (Inl (ValidationError ''SQL query cannot be empty''), ((), [(''SELECT 1'', [])]))"
proof -
  obtain r w' where e: "executeBatch always_ok (batch_example\<lparr>p_queries := []\<rparr>) ((), []) = (r, w')"
    by (cases "executeBatch always_ok (batch_example\<lparr>p_queries := []\<rparr>) ((), [])")
  obtain r2 w2 where f: "executeBatch always_ok
      (batch_example\<lparr>p_queries := [('' '', ''''), (''SELECT 1'', '''')]\<rparr>) ((), []) = (r2, w2)"
    by (cases "executeBatch always_ok
      (batch_example\<lparr>p_queries := [('' '', ''''), (''SELECT 1'', '''')]\<rparr>) ((), [])")
  have bl: "blank '' ''" by (simp add: blank_simps)
  have first_four:
    "snd (snd (executeBatch always_ok batch_example ((), []))) =
       [(''INSERT INTO t VALUES (?, ?)'', [JStr ''1'', JStr ''a'']), (''SELECT 1'', [])]
     \<and> executeBatch always_ok (batch_example\<lparr>p_queries := []\<rparr>) ((), []) =
       (Inl (ValidationError ''At least one query is required for batch execution''), ((), []))
     \<and> executeBatch always_ok (batch_example\<lparr>p_queries := [('' '', ''''), (''SELECT 1'', '''')]\<rparr>) ((), []) =
       (Inl (ValidationError ''SQL query cannot be empty''), ((), []))
     \<and> snd (snd (executeBatch refuses batch_example ((), []))) =
       [(''INSERT INTO t VALUES (?, ?)'', [JStr ''1'', JStr ''a''])]"
    using executeBatch_validation_order [OF batch_example_run, THEN conjunct1]
      executeBatch_validation_order [OF e, THEN conjunct1] e
      executeBatch_validation_order [OF f, THEN conjunct1] f bl
      executeBatch_validation_order [OF batch_refused_run, THEN conjunct1]
    by (auto simp: batch_example_run batch_refused_run)
  have pq: "p_queries batch_failing = [(''SELECT 1'', '''')] @ (''DELETE FROM u'', '''') # [(''SELECT 2'', '''')]"
    by (simp add: batch_failing_def default_parameters_def)
  have pre: "batch_loop (refuses_on ''DELETE FROM u'') [(''SELECT 1'', '''')] [] ((), [])
      = (Inr [processResult empty_result], ((), [(''SELECT 1'', [])]))"
    by (simp add: blank_simps batch_args_def client_execute_def refuses_on_def)
  have thrown: "\<not> blank ''DELETE FROM u''
      \<and> refuses_on ''DELETE FROM u'' (''DELETE FROM u'', batch_args '''') (fst ((), [(''SELECT 1'', [])]))
          = (Inl (LibsqlError ''no such table: u'' (Some ''SQLITE_ERROR'')), ())"
    by (simp add: blank_simps refuses_on_def)
  obtain r5 w5 where e5: "executeBatch (refuses_on ''DELETE FROM u'') batch_failing ((), []) = (r5, w5)"
    by (cases "executeBatch (refuses_on ''DELETE FROM u'') batch_failing ((), [])")
  note t5 = executeBatch_validation_order [OF e5, THEN conjunct2, rule_format, OF conjI [OF pq pre]]
  have fifth: "executeBatch (refuses_on ''DELETE FROM u'') batch_failing ((), []) =
     (Inl (DatabaseError ''Database error in \"Execute Batch - Query: DELETE FROM u\": no such table: u''
            (Some ''Error code: SQLITE_ERROR'')),
      ((), [(''SELECT 1'', []), (''DELETE FROM u'', [])]))"
    using t5 [THEN conjunct2, THEN conjunct2, THEN conjunct1, rule_format, OF thrown]
    by (simp add: handleDatabaseError_def batch_args_def)
  have pq6: "p_queries batch_middle_blank = [(''SELECT 1'', '''')] @ ('' '', '''') # [(''SELECT 2'', '''')]"
    by (simp add: batch_middle_blank_def default_parameters_def)
  have pre6: "batch_loop always_ok [(''SELECT 1'', '''')] [] ((), [])
      = (Inr [processResult empty_result], ((), [(''SELECT 1'', [])]))"
    by (simp add: blank_simps batch_args_def client_execute_def always_ok_def)
  obtain r6 w6 where e6: "executeBatch always_ok batch_middle_blank ((), []) = (r6, w6)"
    by (cases "executeBatch always_ok batch_middle_blank ((), [])")
  note t6 = executeBatch_validation_order [OF e6, THEN conjunct2, rule_format, OF conjI [OF pq6 pre6]]
  have sixth: "executeBatch always_ok batch_middle_blank ((), []) =
     (Inl (ValidationError ''SQL query cannot be empty''), ((), [(''SELECT 1'', [])]))"
    using t6 [THEN conjunct2, THEN conjunct1, rule_format, OF bl] .
  show ?thesis using first_four fifth sixth by blast
qed

text \<open>
  A batch whose second entry has an empty query: the first entry is submitted before the
  validation error is raised.
\<close>

theorem executeBatch_late_blank_counterexample:
  "executeBatch always_ok batch_late_blank ((), []) =
     (Inl (ValidationError ''SQL query cannot be empty''), ((), [(''SELECT 1'', [])]))"
  by (simp add: executeBatch_def batch_late_blank_def default_parameters_def blank_def trim_def
        isWhiteSpace_def batch_args_def client_execute_def always_ok_def)

text \<open>
  The earlier revision submits the same statement for a query, blank or not, and accepts
  an empty batch.
\<close>

lemma early_executeQuery_submits:
  "snd (snd (early_executeQuery exec p w)) = snd w @ [(p_query p, map JStr (p_queryParams p))]"
  by (simp add: early_executeQuery_def client_execute_def Let_def split: prod.splits sum.splits)

lemma early_executeQuery_agrees:
  assumes "\<not> blank (p_query p)"
  shows "snd (executeQuery exec p w) = snd (early_executeQuery exec p w)"
    and "fst (early_executeQuery exec p w) = Inr v \<longleftrightarrow> fst (executeQuery exec p w) = Inr v"
  using assms
  by (auto simp: executeQuery_def early_executeQuery_def Let_def split: prod.splits sum.splits)

lemma early_executeBatch_empty:
  "p_queries p = [] \<Longrightarrow> early_executeBatch exec p w = (Inr (JArr []), w)"
  by (simp add: early_executeBatch_def)
section \<open>Rows from records with missing columns\<close>

lemma submit_loop_calls:
  "submit_loop exec shape operation stmts acc w = (r, w') \<Longrightarrow>
     \<exists>n\<le>length stmts.
        snd w' = snd w @ take n stmts
      \<and> (stmts \<noteq> [] \<longrightarrow> 0 < n)
      \<and> (\<forall>e. r = Inl e \<longrightarrow> (\<exists>m d. e = DatabaseError m d))
      \<and> (\<forall>results. r = Inr results \<longrightarrow>
            n = length stmts \<and> (\<exists>rs. length rs = length stmts \<and> results = acc @ map shape rs))"
proof (induction stmts arbitrary: acc w)
  case Nil
  then show ?case by auto
next
  case (Cons s rest)
  obtain x w1 where ce: "client_execute exec s w = (x, w1)"
    by (cases "client_execute exec s w")
  have log1: "snd w1 = snd w @ [s]" using client_execute_log [OF ce] .
  show ?case
  proof (cases x)
    case (Inl err)
    then have r: "r = Inl (handleDatabaseError err operation)" and w: "w' = w1"
      using Cons.prems ce by simp_all
    obtain m d where md: "handleDatabaseError err operation = DatabaseError m d"
      using handleDatabaseError_is_DatabaseError by blast
    show ?thesis using r w md log1 by (intro exI [of _ 1]) simp
  next
    case (Inr result)
    then have rec: "submit_loop exec shape operation rest (acc @ [shape result]) w1 = (r, w')"
      using Cons.prems ce by simp
    from Cons.IH [OF rec] obtain n where n: "n \<le> length rest"
      and log: "snd w' = snd w1 @ take n rest"
      and er: "\<forall>e. r = Inl e \<longrightarrow> (\<exists>m d. e = DatabaseError m d)"
      and ok: "\<forall>results. r = Inr results \<longrightarrow>
            n = length rest \<and> (\<exists>rs. length rs = length rest \<and> results = (acc @ [shape result]) @ map shape rs)"
      by blast
    have ok': "\<forall>results. r = Inr results \<longrightarrow>
            Suc n = length (s # rest) \<and> (\<exists>rs. length rs = length (s # rest) \<and> results = acc @ map shape rs)"
    proof (intro allI impI)
      fix results assume "r = Inr results"
      then obtain rs where "n = length rest" "length rs = length rest" "results = (acc @ [shape result]) @ map shape rs"
        using ok by blast
      then have "length (result # rs) = length (s # rest) \<and> results = acc @ map shape (result # rs)" by simp
      then show "Suc n = length (s # rest) \<and> (\<exists>rs. length rs = length (s # rest) \<and> results = acc @ map shape rs)"
        using \<open>n = length rest\<close> by (intro conjI exI [of _ "result # rs"]) simp_all
    qed
    show ?thesis
      using n log log1 er ok' by (intro exI [of _ "Suc n"]) simp
  qed
qed





section \<open>The shape of the responses\<close>

lemma batch_loop_results:
  "batch_loop exec qs acc w = (Inr results, w') \<Longrightarrow> \<exists>rs. results = acc @ map processResult rs"
proof (induction qs arbitrary: acc w)
  case Nil
  then show ?case by simp
next
  case (Cons qp rest)
  obtain q ps where qp: "qp = (q, ps)" by (cases qp)
  obtain x w1 where ce: "client_execute exec (q, batch_args ps) w = (x, w1)"
    by (cases "client_execute exec (q, batch_args ps) w")
  show ?case
  proof (cases "blank q")
    case True
    then show ?thesis using Cons.prems qp by simp
  next
    case False
    show ?thesis
    proof (cases x)
      case (Inl err)
      then show ?thesis using Cons.prems qp False ce by simp
    next
      case (Inr result)
      then have "batch_loop exec rest (acc @ [processResult result]) w1 = (Inr results, w')"
        using Cons.prems qp False ce by simp
      from Cons.IH [OF this] obtain rs where "results = (acc @ [processResult result]) @ map processResult rs"
        by blast
      then have "results = acc @ map processResult (result # rs)" by simp
      then show ?thesis by blast
    qed
  qed
qed

lemma keys_processResult:
  "keys (processResult result) = [''columns'', ''rows'', ''rowsAffected'', ''lastInsertRowid'']"
  by (simp add: processResult_def)

lemma insertRows_shape:
  assumes "insertRows rt exec p items w = Some (Inr v, w')"
  shows "\<exists>results. v = JArr results \<and> (\<forall>r\<in>set results. keys r = [''rowsAffected'', ''lastInsertRowid''])"
proof -
  obtain plan where b: "insertRows_build rt p items = Some (Inr plan)"
    using assms by (auto simp: insertRows_def split: option.splits sum.splits)
  obtain x w1 where sl: "submit_loop exec insert_result ''Insert Rows'' plan [] w = (x, w1)"
    by (cases "submit_loop exec insert_result ''Insert Rows'' plan [] w")
  obtain results where x: "x = Inr results" and v: "v = JArr results"
    using assms b sl by (cases x) (auto simp: insertRows_def)
  from submit_loop_calls [OF sl] x obtain rs where "results = [] @ map insert_result rs"
    by blast
  then have "\<forall>r\<in>set results. keys r = [''rowsAffected'', ''lastInsertRowid'']"
    by (auto simp: insert_result_def)
  then show ?thesis using v by blast
qed

lemma updateRows_shape:
  assumes "updateRows rt exec p items w = Some (Inr v, w')"
  shows "\<exists>results. v = JArr results \<and> (\<forall>r\<in>set results. keys r = [''rowsAffected''])"
proof -
  obtain plan where b: "updateRows_build rt p items = Some (Inr plan)"
    using assms by (auto simp: updateRows_def split: option.splits sum.splits)
  obtain x w1 where sl: "submit_loop exec update_result ''Update Rows'' plan [] w = (x, w1)"
    by (cases "submit_loop exec update_result ''Update Rows'' plan [] w")
  obtain results where x: "x = Inr results" and v: "v = JArr results"
    using assms b sl by (cases x) (auto simp: updateRows_def)
  from submit_loop_calls [OF sl] x obtain rs where "results = [] @ map update_result rs"
    by blast
  then have "\<forall>r\<in>set results. keys r = [''rowsAffected'']"
    by (auto simp: update_result_def)
  then show ?thesis using v by blast
qed

lemma deleteRows_shape:
  "deleteRows exec p w = (Inr v, w') \<Longrightarrow> keys v = [''rowsAffected'']"
  by (auto simp: deleteRows_def split: sum.splits prod.splits)

lemma executeQuery_shape:
  "executeQuery exec p w = (Inr v, w') \<Longrightarrow> keys v = [''columns'', ''rows'', ''rowsAffected'', ''lastInsertRowid'']"
  by (auto simp: executeQuery_def Let_def keys_processResult split: sum.splits prod.splits if_splits)

lemma executeBatch_shape:
  assumes "executeBatch exec p w = (Inr v, w')"
  shows "\<exists>results. v = JArr results
           \<and> (\<forall>r\<in>set results. keys r = [''columns'', ''rows'', ''rowsAffected'', ''lastInsertRowid''])"
proof -
  obtain x w1 where bl: "batch_loop exec (p_queries p) [] w = (x, w1)"
    by (cases "batch_loop exec (p_queries p) [] w")
  obtain results where x: "x = Inr results" and v: "v = JArr results"
    using assms bl by (cases x) (auto simp: executeBatch_def Let_def split: if_splits)
  from batch_loop_results [OF bl [unfolded x]] obtain rs where "results = [] @ map processResult rs"
    by blast
  then have "\<forall>r\<in>set results. keys r = [''columns'', ''rows'', ''rowsAffected'', ''lastInsertRowid'']"
    by (auto simp: keys_processResult)
  then show ?thesis using v by blast
qed

lemma selectRows_shape:
  "selectRows rt exec p w = (Inr v, w') \<Longrightarrow> keys v = [''columns'', ''rows'']"
  by (auto simp: selectRows_def split: sum.splits prod.splits)

lemma listTables_shape:
  "listTables rt exec w = (Inr v, w') \<Longrightarrow> keys v = [''tables'']"
  by (auto simp: listTables_def split: sum.splits prod.splits error.splits)

lemma describeTable_shape:
  "describeTable exec p w = (Inr v, w') \<Longrightarrow> keys v = [''columns'']"
  by (auto simp: describeTable_def split: sum.splits prod.splits)

lemma execute_item_full_shape:
  assumes run: "execute_item rt exec p items w = Some (Inr v, w')"
    and full: "\<exists>r\<in>set (elements v). ''columns'' \<in> set (keys r) \<and> ''rows'' \<in> set (keys r)"
  shows "p_operation p \<in> {''executeQuery'', ''executeBatch'', ''selectRows''}"
proof (rule ccontr)
  assume no: "p_operation p \<notin> {''executeQuery'', ''executeBatch'', ''selectRows''}"
  consider (ins) "p_operation p = ''insertRows''" | (upd) "p_operation p = ''updateRows''"
    | (del) "p_operation p = ''deleteRows''" | (lst) "p_operation p = ''listTables''"
    | (dsc) "p_operation p = ''describeTable''"
    | (other) "p_operation p \<notin> {''executeQuery'', ''executeBatch'', ''insertRows'', ''updateRows'',
         ''deleteRows'', ''selectRows'', ''listTables'', ''describeTable''}"
    using no by blast
  then show False
  proof cases
    case ins
    then have "insertRows rt exec p items w = Some (Inr v, w')" using run by (simp add: execute_item_def)
    from insertRows_shape [OF this] show False using full by auto
  next
    case upd
    then have "updateRows rt exec p items w = Some (Inr v, w')" using run by (simp add: execute_item_def)
    from updateRows_shape [OF this] show False using full by auto
  next
    case del
    then have "deleteRows exec p w = (Inr v, w')" using run by (simp add: execute_item_def)
    from deleteRows_shape [OF this] show False using full by (cases v) auto
  next
    case lst
    then have "listTables rt exec w = (Inr v, w')" using run by (simp add: execute_item_def)
    from listTables_shape [OF this] show False using full by (cases v) auto
  next
    case dsc
    then have "describeTable exec p w = (Inr v, w')" using run by (simp add: execute_item_def)
    from describeTable_shape [OF this] show False using full by (cases v) auto
  next
    case other
    then have "v = JUndefined" using run by (simp add: execute_item_def)
    then show False using full by simp
  qed
qed

lemma update_manual_example_build:
  "updateRows_build rt update_manual_example [] =
     Some (Inr [(''UPDATE t SET a = ?, b = ? WHERE id = ?'', [JStr ''1'', JStr ''2'', JStr ''5''])])"
proof -
  have l: "length (p_valueItems update_manual_example) = 2" "length (p_columns update_manual_example) = 2"
    by (simp_all add: update_manual_example_def default_parameters_def)
  have h: "\<not> blank (p_table update_manual_example)" "p_columns update_manual_example \<noteq> []"
      "\<not> blank (p_whereClause update_manual_example)" "p_dataSource update_manual_example = ''manualInput''"
    by (simp_all add: update_manual_example_def default_parameters_def not_blank_t not_blank_id)
  show ?thesis
    using updateRows_manual [OF h, of rt "[]", unfolded l]
    by (simp add: update_manual_example_def default_parameters_def update_query_def)
qed

text \<open>
  Claim C10. Every per-statement result of an insert has the fields \<open>rowsAffected\<close> and
  \<open>lastInsertRowid\<close> and no other; every per-statement result of an update, and the result
  of a delete, has the field \<open>rowsAffected\<close> and no other. None of them has \<open>columns\<close> or
  \<open>rows\<close>. A response with both \<open>columns\<close> and \<open>rows\<close> comes from a query, a batch or a
  select only: the query and each batch entry give the four normalised fields, the select
  gives \<open>columns\<close> and \<open>rows\<close>.
\<close>

theorem mutation_results_shape:
  "(\<forall>v w'. insertRows rt exec p items w = Some (Inr v, w') \<longrightarrow>
       (\<exists>results. v = JArr results \<and> (\<forall>r\<in>set results. keys r = [''rowsAffected'', ''lastInsertRowid''])))
   \<and> (\<forall>v w'. updateRows rt exec p items w = Some (Inr v, w') \<longrightarrow>
       (\<exists>results. v = JArr results \<and> (\<forall>r\<in>set results. keys r = [''rowsAffected''])))
   \<and> (\<forall>v w'. deleteRows exec p w = (Inr v, w') \<longrightarrow> keys v = [''rowsAffected''])
   \<and> (\<forall>v w'. executeQuery exec p w = (Inr v, w') \<longrightarrow>
       keys v = [''columns'', ''rows'', ''rowsAffected'', ''lastInsertRowid''])
   \<and> (\<forall>v w'. executeBatch exec p w = (Inr v, w') \<longrightarrow>
       (\<exists>results. v = JArr results
          \<and> (\<forall>r\<in>set results. keys r = [''columns'', ''rows'', ''rowsAffected'', ''lastInsertRowid''])))
   \<and> (\<forall>v w'. selectRows rt exec p w = (Inr v, w') \<longrightarrow> keys v = [''columns'', ''rows''])
   \<and> (\<forall>v w'. execute_item rt exec p items w = Some (Inr v, w')
          \<and> (\<exists>r\<in>set (elements v). ''columns'' \<in> set (keys r) \<and> ''rows'' \<in> set (keys r))
        \<longrightarrow> p_operation p \<in> {''executeQuery'', ''executeBatch'', ''selectRows''})"
  using insertRows_shape [of rt exec p items w] updateRows_shape [of rt exec p items w]
    deleteRows_shape [of exec p w] executeQuery_shape [of exec p w] executeBatch_shape [of exec p w]
    selectRows_shape [of rt exec p w] execute_item_full_shape [of rt exec p items w]
  by blast

text \<open>
  An insert of two rows, an update of one row, the delete scenario of the specification
  and a select, against a capability whose every answer carries all four fields.
\<close>

theorem mutation_results_shape_witness:
  "map_option fst (insertRows bare_runtime (answers full_result) insert_example [] ((), [])) =
     Some (Inr (JArr [JObj [(''rowsAffected'', JNum 1), (''lastInsertRowid'', JNum 7)],
                      JObj [(''rowsAffected'', JNum 1), (''lastInsertRowid'', JNum 7)]]))
   \<and> map_option fst (updateRows bare_runtime (answers full_result) update_manual_example [] ((), [])) =
     Some (Inr (JArr [JObj [(''rowsAffected'', JNum 1)]]))
   \<and> fst (deleteRows (answers full_result) delete_example ((), [])) =
     Inr (JObj [(''rowsAffected'', JNum 1)])
   \<and> snd (snd (deleteRows (answers full_result) delete_example ((), []))) =
     [(''DELETE FROM t WHERE id = ?'', [JStr ''5''])]
   \<and> fst (selectRows bare_runtime (answers full_result) select_all_example ((), [])) =
     Inr (JObj [(''columns'', JArr [JStr ''id'']), (''rows'', JArr [JObj [(''id'', JNum 7)]])])"
proof -
  have i: "insertRows_build bare_runtime insert_example [] =
     Some (Inr [(''INSERT INTO t (id, name) VALUES (?, ?)'', [JStr ''1'', JStr ''a'']),
                (''INSERT INTO t (id, name) VALUES (?, ?)'', [JStr ''2'', JStr ''b''])])"
  proof -
    have l: "length (p_valueItems insert_example) = 4" "length (p_columns insert_example) = 2"
      by (simp_all add: insert_example_def default_parameters_def)
    have "source_rows bare_runtime ''insert'' insert_example [] [] =
        Some (Inr [[JStr ''1'', JStr ''a''], [JStr ''2'', JStr ''b'']])"
      using source_rows_manual [of insert_example bare_runtime "''insert''" "[]" "[]", unfolded l]
      by (simp add: insert_example_def default_parameters_def upt_2)
    then show ?thesis
      by (simp add: insertRows_build_def insert_query_def insert_example_def default_parameters_def
            not_blank_t)
  qed
  have d: "deleteRows_build delete_example = Inr (''DELETE FROM t WHERE id = ?'', [JStr ''5''])"
    by (simp add: deleteRows_build_def delete_example_def default_parameters_def not_blank_t not_blank_id)
  have s: "selectRows_build bare_runtime select_all_example = Inr (''SELECT * FROM t'', [])"
    by (simp add: selectRows_build_Inr_iff select_all_example_def default_parameters_def blank_simps)
  show ?thesis
    using mutation_results_shape [of bare_runtime "answers full_result" insert_example "[]" "((), [])"]
      mutation_results_shape [of bare_runtime "answers full_result" update_manual_example "[]" "((), [])"]
      mutation_results_shape [of bare_runtime "answers full_result" delete_example "[]" "((), [])"]
      mutation_results_shape [of bare_runtime "answers full_result" select_all_example "[]" "((), [])"]
    by (simp add: insertRows_def updateRows_def deleteRows_def selectRows_def i d s
          update_manual_example_build
          client_execute_def answers_def insert_result_def update_result_def full_result_def
          rowsAffected_of_def lastInsertRowid_of_def columnNames_of_def rows_of_def columnName_def)
qed

end
